theory Spec2Isabelle
  imports Main
begin

section \<open>Data model\<close>

text \<open>
  The controller of \<^verbatim>\<open>src/main.py\<close> is a MicroPython script: every function acts on
  the MQTT client, the GPIO pin, the file store and the reset line. The embedding makes
  those effects explicit. A run is a function from a \<open>world\<close> to a result and the
  updated world; everything the device does is appended to the world's \<open>trace\<close>.

  Byte strings and text are both \<open>string\<close> (a text is its UTF-8 bytes, so
  \<^verbatim>\<open>encode('utf-8')\<close> is the identity and \<^verbatim>\<open>decode()\<close> is a validity check).
\<close>

text \<open>Python exceptions, by class, with the message \<^verbatim>\<open>str(e)\<close> gives.\<close>

datatype exn =
    OSError string
  | ValueError string
  | UnicodeError string
  | TypeError string
  | AttributeError string
  | OverflowError string
  | OtherError string

fun exn_str :: "exn \<Rightarrow> string" where
  "exn_str (OSError m) = m"
| "exn_str (ValueError m) = m"
| "exn_str (UnicodeError m) = m"
| "exn_str (TypeError m) = m"
| "exn_str (AttributeError m) = m"
| "exn_str (OverflowError m) = m"
| "exn_str (OtherError m) = m"

text \<open>\<^verbatim>\<open>except OSError\<close>, \<^verbatim>\<open>except ValueError\<close> (UnicodeError is a subclass of
  ValueError) and \<^verbatim>\<open>except Exception\<close>.\<close>

fun is_OSError :: "exn \<Rightarrow> bool" where
  "is_OSError (OSError m) = True"
| "is_OSError e = False"

fun is_ValueError :: "exn \<Rightarrow> bool" where
  "is_ValueError (ValueError m) = True"
| "is_ValueError (UnicodeError m) = True"
| "is_ValueError e = False"

definition is_Exception :: "exn \<Rightarrow> bool" where
  "is_Exception e = True"

text \<open>
  What \<^verbatim>\<open>ujson.loads\<close> returns. A JSON number with a fraction or an exponent is a
  Python float: \<open>FloatVal m e\<close> is the binary float of value \<open>m * 2 ^ e\<close> (every finite
  float is one), beside infinity and not-a-number.
\<close>

datatype pyfloat = FloatVal int int | FloatInf | FloatNan

datatype json =
    JNull
  | JBool bool
  | JInt int
  | JFloat pyfloat
  | JStr string
  | JArr "json list"
  | JObj "(string \<times> json) list"

text \<open>
  The library functions the script calls and whose code is not in the repository:
  \<^verbatim>\<open>bytes.decode\<close>, \<^verbatim>\<open>ujson.loads\<close> (\<open>Inl d\<close> is a ValueError with detail \<open>d\<close>),
  \<^verbatim>\<open>int()\<close> on a string (\<open>None\<close> is a ValueError), \<^verbatim>\<open>str()\<close> of a value, and
  \<^verbatim>\<open>urequests.get\<close> (the status code and the body, or the exception it raises).
\<close>

record env =
  utf8_ok :: "string \<Rightarrow> bool"
  loads :: "string \<Rightarrow> string + json"
  int_of_str :: "string \<Rightarrow> int option"
  str_of :: "json \<Rightarrow> string"
  http_get :: "json \<Rightarrow> exn + (int \<times> string)"

datatype level = DEBUG | INFO | WARNING | ERROR | CRITICAL

text \<open>
  The observable actions. A \<open>Print\<close> keeps the level and the fixed text of the line
  (interpolated values are left out). A \<open>Publish\<close> keeps the topic, the dictionary handed
  to \<^verbatim>\<open>ujson.dumps\<close> and what \<^verbatim>\<open>client.publish\<close> raised (\<open>None\<close>: the message was sent).
  \<open>Sleep\<close> is in milliseconds.
\<close>

datatype event =
    Print level string
  | Publish string json "exn option"
  | PinInit nat
  | PinOn "exn option"
  | PinOff "exn option"
  | Sleep nat
  | Reset
  | GcCollect
  | HttpGet json
  | FileWrite string "exn option"
  | FileStat string "exn option"
  | FileRemove string "exn option"
  | FileRename string string "exn option"
  | Connect "exn option"
  | Subscribe string "exn option"

text \<open>
  The device and its surroundings. \<open>files\<close> is the file store, \<open>last_health_check\<close> the
  global of that name, \<open>clock\<close> what \<^verbatim>\<open>time.time()\<close> reads, \<open>mem_free\<close> and \<open>mem_alloc\<close>
  what the garbage collector reports. The scripts are the environment's answers to the
  calls that may fail, in call order: the head is consumed by the next call, \<open>None\<close> (or
  an exhausted script) lets the call go through, \<open>Some e\<close> makes it raise \<open>e\<close>.
\<close>

record world =
  trace :: "event list"
  files :: "string \<rightharpoonup> string"
  last_health_check :: int
  clock :: int
  mem_free :: int
  mem_alloc :: int
  pub_script :: "exn option list"
  pin_script :: "exn option list"
  fs_script :: "exn option list"
  prep_script :: "exn option list"
  conn_script :: "exn option list"

text \<open>
  A statement either completes with a value, raises, or reboots the device
  (\<^verbatim>\<open>machine.reset()\<close> does not return; nothing after it runs).
\<close>

datatype 'a result = Ok 'a | Raise exn | Reboot

type_synonym 'a prog = "world \<Rightarrow> 'a result \<times> world"

definition ret :: "'a \<Rightarrow> 'a prog" where
  "ret x w = (Ok x, w)"

definition raise :: "exn \<Rightarrow> 'a prog" where
  "raise e w = (Raise e, w)"

definition and_then :: "'a prog \<Rightarrow> ('a \<Rightarrow> 'b prog) \<Rightarrow> 'b prog" where
  "and_then m f w =
     (case m w of
        (Ok x, w') \<Rightarrow> f x w'
      | (Raise e, w') \<Rightarrow> (Raise e, w')
      | (Reboot, w') \<Rightarrow> (Reboot, w'))"

definition seq :: "'a prog \<Rightarrow> 'b prog \<Rightarrow> 'b prog" where
  "seq m k = and_then m (\<lambda>_. k)"

text \<open>\<^verbatim>\<open>try: m  except cls as e: h e\<close>. An exception of another class passes through.\<close>

definition try_except :: "(exn \<Rightarrow> bool) \<Rightarrow> 'a prog \<Rightarrow> (exn \<Rightarrow> 'a prog) \<Rightarrow> 'a prog" where
  "try_except cls m h w =
     (case m w of
        (Raise e, w') \<Rightarrow> (if cls e then h e w' else (Raise e, w'))
      | (Ok x, w') \<Rightarrow> (Ok x, w')
      | (Reboot, w') \<Rightarrow> (Reboot, w'))"

text \<open>A list of statements run in order.\<close>

fun block :: "unit prog list \<Rightarrow> unit prog" where
  "block [] = ret ()"
| "block (s # ss) = seq s (block ss)"

subsection \<open>Primitive actions\<close>

definition emit :: "event \<Rightarrow> world \<Rightarrow> world" where
  "emit e w = w\<lparr>trace := trace w @ [e]\<rparr>"

definition next_outcome :: "exn option list \<Rightarrow> exn option" where
  "next_outcome s = (case s of [] \<Rightarrow> None | x # _ \<Rightarrow> x)"

definition outcome :: "exn option \<Rightarrow> unit result" where
  "outcome x = (case x of None \<Rightarrow> Ok () | Some e \<Rightarrow> Raise e)"

definition print_line :: "level \<Rightarrow> string \<Rightarrow> unit prog" where
  "print_line l s w = (Ok (), emit (Print l s) w)"

definition sleep_ms :: "nat \<Rightarrow> unit prog" where
  "sleep_ms n w = (Ok (), emit (Sleep n) w)"

definition machine_reset :: "unit prog" where
  "machine_reset w = (Reboot, emit Reset w)"

definition publish :: "string \<Rightarrow> json \<Rightarrow> unit prog" where
  "publish topic payload w =
     (let x = next_outcome (pub_script w)
      in (outcome x, emit (Publish topic payload x) (w\<lparr>pub_script := tl (pub_script w)\<rparr>)))"

text \<open>\<^verbatim>\<open>machine.Pin(n, machine.Pin.OUT)\<close> configures a fixed, valid pin; it is taken not
  to raise. \<^verbatim>\<open>flash.on()\<close> and \<^verbatim>\<open>flash.off()\<close> may.\<close>

definition pin_init :: "nat \<Rightarrow> unit prog" where
  "pin_init n w = (Ok (), emit (PinInit n) w)"

definition pin_on :: "unit prog" where
  "pin_on w =
     (let x = next_outcome (pin_script w)
      in (outcome x, emit (PinOn x) (w\<lparr>pin_script := tl (pin_script w)\<rparr>)))"

definition pin_off :: "unit prog" where
  "pin_off w =
     (let x = next_outcome (pin_script w)
      in (outcome x, emit (PinOff x) (w\<lparr>pin_script := tl (pin_script w)\<rparr>)))"

definition time_time :: "int prog" where
  "time_time w = (Ok (clock w), w)"

definition bytes_decode :: "env \<Rightarrow> string \<Rightarrow> string prog" where
  "bytes_decode env b = (if utf8_ok env b then ret b else raise (UnicodeError []))"

definition json_loads :: "env \<Rightarrow> string \<Rightarrow> json prog" where
  "json_loads env s = (case loads env s of Inl d \<Rightarrow> raise (ValueError d) | Inr j \<Rightarrow> ret j)"

text \<open>\<^verbatim>\<open>d.get(k)\<close> and \<^verbatim>\<open>d.get(k, default)\<close>; only a dictionary has the method.\<close>

definition dict_get_default :: "json \<Rightarrow> string \<Rightarrow> json \<Rightarrow> json prog" where
  "dict_get_default d k dflt =
     (case d of
        JObj kvs \<Rightarrow> ret (case map_of kvs k of None \<Rightarrow> dflt | Some v \<Rightarrow> v)
      | _ \<Rightarrow> raise (AttributeError ''object has no attribute 'get' ''))"

definition dict_get :: "json \<Rightarrow> string \<Rightarrow> json prog" where
  "dict_get d k = dict_get_default d k JNull"

text \<open>Python's \<^verbatim>\<open>int(x)\<close> and the truth value of \<open>x\<close>. A float is truncated towards
  zero.\<close>

definition int_of_float :: "pyfloat \<Rightarrow> int prog" where
  "int_of_float f =
     (case f of
        FloatVal m e \<Rightarrow>
          ret (if e \<ge> 0 then m * 2 ^ nat e
               else if m \<ge> 0 then m div 2 ^ nat (- e)
               else - ((- m) div 2 ^ nat (- e)))
      | FloatInf \<Rightarrow> raise (OverflowError ''can't convert inf to int'')
      | FloatNan \<Rightarrow> raise (ValueError ''can't convert NaN to int''))"

definition float_truthy :: "pyfloat \<Rightarrow> bool" where
  "float_truthy f = (case f of FloatVal m e \<Rightarrow> m \<noteq> 0 | FloatInf \<Rightarrow> True | FloatNan \<Rightarrow> True)"

definition py_int :: "env \<Rightarrow> json \<Rightarrow> int prog" where
  "py_int env j =
     (case j of
        JInt n \<Rightarrow> ret n
      | JBool b \<Rightarrow> ret (if b then 1 else 0)
      | JStr s \<Rightarrow> (case int_of_str env s of
                     None \<Rightarrow> raise (ValueError ''invalid syntax for integer'')
                   | Some n \<Rightarrow> ret n)
      | JFloat f \<Rightarrow> int_of_float f
      | JNull \<Rightarrow> raise (TypeError ''can't convert NoneType to int'')
      | JArr xs \<Rightarrow> raise (TypeError ''can't convert list to int'')
      | JObj kvs \<Rightarrow> raise (TypeError ''can't convert dict to int''))"

definition truthy :: "env \<Rightarrow> json \<Rightarrow> bool" where
  "truthy env j =
     (case j of
        JNull \<Rightarrow> False
      | JBool b \<Rightarrow> b
      | JInt n \<Rightarrow> n \<noteq> 0
      | JFloat f \<Rightarrow> float_truthy f
      | JStr s \<Rightarrow> s \<noteq> []
      | JArr xs \<Rightarrow> xs \<noteq> []
      | JObj kvs \<Rightarrow> kvs \<noteq> [])"

text \<open>
  The file store. A call first takes the next entry of \<open>fs_script\<close> (an injected fault);
  without one it behaves as the store does: \<^verbatim>\<open>stat\<close>, \<^verbatim>\<open>remove\<close> and \<^verbatim>\<open>rename\<close> of a
  missing file raise OSError (ENOENT), \<^verbatim>\<open>rename\<close> replaces its target.
\<close>

definition enoent :: exn where
  "enoent = OSError ''ENOENT''"

definition fs_write :: "string \<Rightarrow> string \<Rightarrow> unit prog" where
  "fs_write path content w =
     (let x = next_outcome (fs_script w); w1 = w\<lparr>fs_script := tl (fs_script w)\<rparr>
      in case x of
           Some e \<Rightarrow> (Raise e, emit (FileWrite path x) w1)
         | None \<Rightarrow> (Ok (), emit (FileWrite path None) (w1\<lparr>files := (files w1)(path \<mapsto> content)\<rparr>)))"

definition fs_stat_size :: "string \<Rightarrow> nat prog" where
  "fs_stat_size path w =
     (let x = next_outcome (fs_script w); w1 = w\<lparr>fs_script := tl (fs_script w)\<rparr>
      in case x of
           Some e \<Rightarrow> (Raise e, emit (FileStat path x) w1)
         | None \<Rightarrow>
             (case files w1 path of
                None \<Rightarrow> (Raise enoent, emit (FileStat path (Some enoent)) w1)
              | Some c \<Rightarrow> (Ok (length c), emit (FileStat path None) w1)))"

definition fs_remove :: "string \<Rightarrow> unit prog" where
  "fs_remove path w =
     (let x = next_outcome (fs_script w); w1 = w\<lparr>fs_script := tl (fs_script w)\<rparr>
      in case x of
           Some e \<Rightarrow> (Raise e, emit (FileRemove path x) w1)
         | None \<Rightarrow>
             (case files w1 path of
                None \<Rightarrow> (Raise enoent, emit (FileRemove path (Some enoent)) w1)
              | Some c \<Rightarrow> (Ok (), emit (FileRemove path None) (w1\<lparr>files := (files w1)(path := None)\<rparr>))))"

definition fs_rename :: "string \<Rightarrow> string \<Rightarrow> unit prog" where
  "fs_rename src dst w =
     (let x = next_outcome (fs_script w); w1 = w\<lparr>fs_script := tl (fs_script w)\<rparr>
      in case x of
           Some e \<Rightarrow> (Raise e, emit (FileRename src dst x) w1)
         | None \<Rightarrow>
             (case files w1 src of
                None \<Rightarrow> (Raise enoent, emit (FileRename src dst (Some enoent)) w1)
              | Some c \<Rightarrow>
                  (Ok (), emit (FileRename src dst None)
                            (w1\<lparr>files := ((files w1)(src := None))(dst \<mapsto> c)\<rparr>))))"

definition urequests_get :: "env \<Rightarrow> json \<Rightarrow> (int \<times> string) prog" where
  "urequests_get env url w =
     (case http_get env url of
        Inl e \<Rightarrow> (Raise e, emit (HttpGet url) w)
      | Inr r \<Rightarrow> (Ok r, emit (HttpGet url) w))"

subsection \<open>Topics and constants\<close>

text \<open>The four topics \<^verbatim>\<open>main()\<close> builds from the machine id (lines 437-443).\<close>

definition MQTT_TOPIC_SUB :: "string \<Rightarrow> string" where
  "MQTT_TOPIC_SUB machine_id = ''vending/machine/'' @ machine_id @ ''/trigger''"

definition MQTT_TOPIC_PUB :: "string \<Rightarrow> string" where
  "MQTT_TOPIC_PUB machine_id = ''vending/machine/'' @ machine_id @ ''/status''"

definition MQTT_TOPIC_CONFIRM :: "string \<Rightarrow> string" where
  "MQTT_TOPIC_CONFIRM machine_id = ''vending/machine/'' @ machine_id @ ''/confirm''"

definition MQTT_TOPIC_HEALTH :: "string \<Rightarrow> string" where
  "MQTT_TOPIC_HEALTH machine_id = ''vending/machine/'' @ machine_id @ ''/health''"

definition HEALTH_CHECK_INTERVAL :: int where
  "HEALTH_CHECK_INTERVAL = 60"

definition FLASH_PIN :: nat where
  "FLASH_PIN = 4"

section \<open>The program\<close>

subsection \<open>Heartbeat: \<^verbatim>\<open>check_memory\<close> and \<^verbatim>\<open>publish_health_status\<close> (lines 128-179)\<close>

text \<open>\<open>prep_script\<close> says whether gathering and serialising the health data raises; the
  entry is taken when the garbage collector is called.\<close>

definition check_memory :: "(int \<times> int) prog" where
  "check_memory w =
     (let x = next_outcome (prep_script w);
          w1 = emit GcCollect (w\<lparr>prep_script := tl (prep_script w)\<rparr>)
      in case x of
           Some e \<Rightarrow> (Raise e, w1)
         | None \<Rightarrow> (Ok (mem_free w1, mem_alloc w1), emit (Print DEBUG ''Memory'') w1))"

definition health_payload :: "int \<Rightarrow> int \<Rightarrow> int \<Rightarrow> json" where
  "health_payload uptime free_mem alloc_mem =
     JObj [(''status'', JStr ''healthy''),
           (''uptime_s'', JInt uptime),
           (''mem_free_b'', JInt free_mem),
           (''mem_alloc_b'', JInt alloc_mem)]"

definition set_last_health_check :: "int \<Rightarrow> unit prog" where
  "set_last_health_check t w = (Ok (), w\<lparr>last_health_check := t\<rparr>)"

text \<open>Lines 145-162: the prepared payload, or \<open>None\<close> where the source returns early.
  The serialised text of a dictionary is never empty, so the test of line 165 passes.\<close>

definition prepare_health :: "json option prog" where
  "prepare_health =
     try_except is_Exception
       (and_then check_memory (\<lambda>(free_mem, alloc_mem).
        and_then time_time (\<lambda>uptime.
        seq (print_line DEBUG ''Prepared health JSON'')
            (ret (Some (health_payload uptime free_mem alloc_mem))))))
       (\<lambda>e. seq (print_line ERROR ''Failed to prepare health status data'') (ret None))"

definition publish_health_status :: "string \<Rightarrow> unit prog" where
  "publish_health_status mid w =
     (let current_time = clock w
      in if current_time - last_health_check w \<ge> HEALTH_CHECK_INTERVAL then
           and_then prepare_health (\<lambda>prepared.
             case prepared of
               None \<Rightarrow> ret ()
             | Some health_json \<Rightarrow>
                 try_except is_Exception
                   (block [print_line DEBUG ''Attempting to publish'',
                           publish (MQTT_TOPIC_HEALTH mid) health_json,
                           print_line INFO ''Successfully published health status'',
                           set_last_health_check current_time])
                   (\<lambda>pub_e. if is_OSError pub_e
                            then print_line ERROR ''OSError during MQTT publish for health status''
                            else print_line ERROR ''Unexpected error during MQTT publish for health status'')) w
         else (Ok (), w))"

subsection \<open>Self-update: \<^verbatim>\<open>perform_ota_update\<close> (lines 182-278)\<close>

definition temp_script_path :: string where
  "temp_script_path = ''main_next.py''"

definition old_script_path :: string where
  "old_script_path = ''main_old.py''"

definition current_script_path :: string where
  "current_script_path = ''main.py''"

definition status_payload :: "string \<Rightarrow> json" where
  "status_payload s = JObj [(''status'', JStr s)]"

text \<open>Lines 201-230: the value of \<^verbatim>\<open>download_successful\<close>.\<close>

definition ota_download :: "env \<Rightarrow> json \<Rightarrow> bool prog" where
  "ota_download env url =
     try_except is_Exception
       (seq (print_line DEBUG ''Downloading script'')
       (and_then (urequests_get env url) (\<lambda>(status_code, content).
          if status_code = 200 then
            seq (print_line DEBUG ''Download successful (status code 200). Saving...'')
           (seq (fs_write temp_script_path content)
           (seq (print_line INFO ''New script saved'')
           (and_then (fs_stat_size temp_script_path) (\<lambda>size.
              if size > 0 then
                seq (print_line INFO ''Basic validation passed (file exists and size > 0).'')
                    (ret True)
              else
                seq (print_line ERROR ''Downloaded file is empty!'')
               (seq (fs_remove temp_script_path)
                    (ret False))))))
          else
            seq (print_line ERROR ''Failed to download script'') (ret False))))
       (\<lambda>e. seq (print_line ERROR ''Exception during OTA download'')
            (seq (try_except is_OSError (fs_remove temp_script_path) (\<lambda>_. ret ()))
                 (ret False)))"

text \<open>Lines 234-271: the swap, the success status and the reboot.\<close>

definition ota_swap :: "string \<Rightarrow> unit prog" where
  "ota_swap mid =
     try_except is_Exception
       (block [
          try_except is_OSError
            (seq (fs_remove old_script_path) (print_line DEBUG ''Removed old backup''))
            (\<lambda>_. ret ()),
          try_except is_OSError
            (seq (fs_rename current_script_path old_script_path) (print_line DEBUG ''Renamed current to old''))
            (\<lambda>_. print_line WARNING ''Could not rename current script (might not exist?)''),
          fs_rename temp_script_path current_script_path,
          print_line INFO ''Renamed new script. Update successful.'',
          try_except is_Exception
            (publish (MQTT_TOPIC_PUB mid) (status_payload ''ota_success_rebooting''))
            (\<lambda>_. print_line WARNING ''Could not publish ota_success status''),
          print_line INFO ''Resetting device to apply update...'',
          sleep_ms 2000,
          machine_reset])
       (\<lambda>e. seq (print_line ERROR ''Exception during file renaming/finalizing OTA'')
               (try_except is_Exception
                  (publish (MQTT_TOPIC_PUB mid)
                     (JObj [(''status'', JStr ''ota_finalize_failed''), (''error'', JStr (exn_str e))]))
                  (\<lambda>_. print_line WARNING ''Could not publish ota_finalize_failed status'')))"

definition perform_ota_update :: "env \<Rightarrow> string \<Rightarrow> json \<Rightarrow> unit prog" where
  "perform_ota_update env mid url =
     block [
       print_line INFO ''Starting OTA update'',
       try_except is_Exception
         (publish (MQTT_TOPIC_PUB mid) (JObj [(''status'', JStr ''ota_starting''), (''url'', url)]))
         (\<lambda>_. print_line WARNING ''Could not publish ota_starting status''),
       and_then (ota_download env url) (\<lambda>download_successful.
         if download_successful then ota_swap mid
         else
           seq (print_line ERROR ''OTA update failed due to download error.'')
               (try_except is_Exception
                  (publish (MQTT_TOPIC_PUB mid) (status_payload ''ota_download_failed''))
                  (\<lambda>_. print_line WARNING ''Could not publish ota_download_failed status'')))]"

subsection \<open>Command dispatch: \<^verbatim>\<open>sub_cb\<close> (lines 281-408)\<close>

text \<open>Lines 341-344, one pass of the loop body; durations 0.2 s and 0.3 s.\<close>

definition pulse_cycle :: "unit prog" where
  "pulse_cycle = block [pin_on, sleep_ms 200, pin_off, sleep_ms 300]"

text \<open>\<^verbatim>\<open>for i in range(num_pulses)\<close>: the loop stops at the first pass that raises.\<close>

fun pulse_loop :: "nat \<Rightarrow> world \<Rightarrow> unit result \<times> world" where
  "pulse_loop 0 w = (Ok (), w)"
| "pulse_loop (Suc n) w =
     (case pulse_cycle w of
        (Ok u, w') \<Rightarrow> pulse_loop n w'
      | (Raise e, w') \<Rightarrow> (Raise e, w')
      | (Reboot, w') \<Rightarrow> (Reboot, w'))"

text \<open>Lines 293-303.\<close>

definition reset_command :: "string \<Rightarrow> unit prog" where
  "reset_command mid =
     block [
       print_line INFO ''Received reset command. Resetting device...'',
       try_except is_Exception
         (block [publish (MQTT_TOPIC_PUB mid) (status_payload ''resetting''),
                 print_line INFO ''Published resetting status.'',
                 sleep_ms 1000])
         (\<lambda>_. print_line ERROR ''Could not publish resetting status''),
       machine_reset]"

text \<open>Lines 306-321.\<close>

definition update_command :: "env \<Rightarrow> string \<Rightarrow> json \<Rightarrow> unit prog" where
  "update_command env mid payload_data =
     and_then (dict_get payload_data ''url'') (\<lambda>ota_url.
       if truthy env ota_url then
         block [print_line INFO ''Received OTA update command'',
                perform_ota_update env mid ota_url,
                print_line ERROR ''OTA function returned unexpectedly'']
       else
         seq (print_line ERROR ''Received update action but missing url in payload.'')
             (try_except is_Exception
                (publish (MQTT_TOPIC_PUB mid)
                   (JObj [(''status'', JStr ''ota_error''), (''error'', JStr ''missing_url'')]))
                (\<lambda>_. print_line WARNING ''Could not publish ota_error status'')))"

text \<open>Lines 333-356: the values of \<^verbatim>\<open>action_status\<close> and \<^verbatim>\<open>error_detail\<close>.\<close>

definition actuate :: "env \<Rightarrow> int \<Rightarrow> json \<Rightarrow> (string \<times> string) prog" where
  "actuate env num_pulses qrcode_id =
     (if num_pulses > 0 then
        seq (print_line INFO ''Received instruction for pulse(s). Triggering...'')
       (seq (pin_init FLASH_PIN)
            (try_except is_Exception
               (seq (pulse_loop (nat num_pulses))
               (seq (print_line INFO ''Pulse sequence completed successfully.'')
                    (ret (''success'', []))))
               (\<lambda>pulse_err.
                  seq (print_line ERROR ''Error during pulse generation'')
                      (ret (''failure'',
                            ''Error during pulse generation for QR ID '' @ str_of env qrcode_id
                              @ '': '' @ exn_str pulse_err)))))
      else
        seq (print_line INFO ''Received pulses. No action needed.'')
            (ret (''success'', ''No pulses requested'')))"

definition confirm_payload :: "json \<Rightarrow> string \<Rightarrow> json" where
  "confirm_payload qrcode_id action_status =
     JObj [(''qrcode_id'', qrcode_id), (''status'', JStr action_status)]"

definition device_status_payload :: "env \<Rightarrow> string \<Rightarrow> string \<Rightarrow> json \<Rightarrow> int \<Rightarrow> json" where
  "device_status_payload env action_status error_detail qrcode_id num_pulses =
     JObj [(''last_action_status'', JStr action_status),
           (''last_qrcode_id'', qrcode_id),
           (''pulses_requested'', if truthy env qrcode_id then JInt num_pulses else JNull),
           (''pulses_generated'', JInt (if action_status = ''success'' then num_pulses else 0)),
           (''error'', JStr (if action_status = ''failure'' then error_detail else []))]"

text \<open>Lines 325-388.\<close>

definition pulse_command :: "env \<Rightarrow> string \<Rightarrow> json \<Rightarrow> unit prog" where
  "pulse_command env mid payload_data =
     and_then (dict_get_default payload_data ''pulses'' (JInt 0)) (\<lambda>pulses.
     and_then (py_int env pulses) (\<lambda>num_pulses.
     and_then (dict_get payload_data ''qrcode_id'') (\<lambda>qrcode_id.
       if qrcode_id = JNull then
         raise (ValueError ''Missing 'qrcode_id' in payload for pulse action'')
       else
         and_then (actuate env num_pulses qrcode_id) (\<lambda>(action_status, error_detail).
           seq (if truthy env qrcode_id then
                  try_except is_Exception
                    (seq (publish (MQTT_TOPIC_CONFIRM mid) (confirm_payload qrcode_id action_status))
                         (print_line INFO ''Published confirmation''))
                    (\<lambda>_. print_line CRITICAL ''Failed to publish confirmation'')
                else ret ())
               (try_except is_Exception
                  (seq (publish (MQTT_TOPIC_PUB mid)
                          (device_status_payload env action_status error_detail qrcode_id num_pulses))
                       (print_line INFO ''Published device status''))
                  (\<lambda>_. print_line ERROR ''Failed to publish device status to MQTT''))))))"

text \<open>Lines 288-323: the body of the \<^verbatim>\<open>try\<close>.\<close>

definition handle_command :: "env \<Rightarrow> string \<Rightarrow> string \<Rightarrow> unit prog" where
  "handle_command env mid payload_str =
     and_then (json_loads env payload_str) (\<lambda>payload_data.
     and_then (dict_get payload_data ''action'') (\<lambda>action.
       if action = JStr ''reset'' then reset_command mid
       else if action = JStr ''update'' then update_command env mid payload_data
       else pulse_command env mid payload_data))"

text \<open>Lines 390-405: the two \<^verbatim>\<open>except\<close> clauses, ValueError first.\<close>

definition error_payload :: "string \<Rightarrow> exn \<Rightarrow> json" where
  "error_payload s e = JObj [(''status'', JStr s), (''error'', JStr (exn_str e))]"

definition command_failed :: "string \<Rightarrow> exn \<Rightarrow> unit prog" where
  "command_failed mid e =
     (if is_ValueError e then
        seq (print_line ERROR ''Could not parse payload or missing required field'')
            (try_except is_Exception
               (publish (MQTT_TOPIC_PUB mid) (error_payload ''payload_error'' e))
               (\<lambda>_. print_line WARNING ''Could not publish payload_error status''))
      else
        seq (print_line ERROR ''General error processing message'')
            (try_except is_Exception
               (publish (MQTT_TOPIC_PUB mid) (error_payload ''processing_error'' e))
               (\<lambda>_. print_line WARNING ''Could not publish processing_error status'')))"

definition sub_cb :: "env \<Rightarrow> string \<Rightarrow> string \<Rightarrow> string \<Rightarrow> unit prog" where
  "sub_cb env mid topic msg =
     and_then (bytes_decode env msg) (\<lambda>payload_str.
     and_then (bytes_decode env topic) (\<lambda>topic_str.
     seq (print_line INFO ''Received raw message'')
         (if topic = MQTT_TOPIC_SUB mid then
            try_except is_Exception (handle_command env mid payload_str) (command_failed mid)
          else
            print_line WARNING ''Received message on unexpected topic'')))"

subsection \<open>Supervisor: the loop of \<^verbatim>\<open>main\<close> (lines 480-507)\<close>

text \<open>What \<^verbatim>\<open>client.check_msg()\<close> finds: nothing, one message (handed to \<open>sub_cb\<close>
  before the call returns), or an error of the client itself.\<close>

datatype poll = NoMessage | Message string string | PollError exn

definition check_msg :: "env \<Rightarrow> string \<Rightarrow> poll \<Rightarrow> unit prog" where
  "check_msg env mid p =
     (case p of
        NoMessage \<Rightarrow> ret ()
      | Message topic msg \<Rightarrow> sub_cb env mid topic msg
      | PollError e \<Rightarrow> raise e)"

definition client_connect :: "unit prog" where
  "client_connect w =
     (let x = next_outcome (conn_script w)
      in (outcome x, emit (Connect x) (w\<lparr>conn_script := tl (conn_script w)\<rparr>)))"

definition client_subscribe :: "string \<Rightarrow> unit prog" where
  "client_subscribe topic w =
     (let x = next_outcome (conn_script w)
      in (outcome x, emit (Subscribe topic x) (w\<lparr>conn_script := tl (conn_script w)\<rparr>)))"

text \<open>One pass of \<^verbatim>\<open>while True\<close>: the \<^verbatim>\<open>try\<close> body and its two \<^verbatim>\<open>except\<close> clauses,
  OSError first.\<close>

definition tick :: "env \<Rightarrow> string \<Rightarrow> poll \<Rightarrow> unit prog" where
  "tick env mid p =
     try_except is_Exception
       (block [check_msg env mid p, publish_health_status mid, sleep_ms 100])
       (\<lambda>e. if is_OSError e then
               block [print_line ERROR ''MQTT Connection Error/Disconnected. Reconnecting...'',
                      sleep_ms 5000,
                      try_except is_Exception
                        (block [client_connect,
                                client_subscribe (MQTT_TOPIC_SUB mid),
                                print_line INFO ''Reconnected to MQTT broker and re-subscribed.''])
                        (\<lambda>_. seq (print_line ERROR ''An unexpected error occurred during reconnection'')
                                 (sleep_ms 10000))]
             else
               block [print_line ERROR ''An unexpected error occurred in main loop'',
                      sleep_ms 10000,
                      machine_reset])"

text \<open>
  The loop itself never ends; it is run here on a finite prefix of what the environment
  supplies, one pair per pass: the time \<^verbatim>\<open>time.time()\<close> reads during the pass and what
  the poll finds. \<open>Ok\<close> means the loop is still serving when the prefix is used up,
  \<open>Reboot\<close> that the device was reset (the remaining inputs are never seen).
\<close>

fun main_loop :: "env \<Rightarrow> string \<Rightarrow> (int \<times> poll) list \<Rightarrow> world \<Rightarrow> unit result \<times> world" where
  "main_loop env mid [] w = (Ok (), w)"
| "main_loop env mid ((now, p) # rest) w =
     (case tick env mid p (w\<lparr>clock := now\<rparr>) of
        (Ok u, w') \<Rightarrow> main_loop env mid rest w'
      | (Raise e, w') \<Rightarrow> (Raise e, w')
      | (Reboot, w') \<Rightarrow> (Reboot, w'))"

section \<open>Observations on a run\<close>

text \<open>What a run added to the trace.\<close>

definition new_events :: "world \<Rightarrow> world \<Rightarrow> event list" where
  "new_events w w' = drop (length (trace w)) (trace w')"

fun is_print :: "event \<Rightarrow> bool" where
  "is_print (Print l s) = True"
| "is_print e = False"

fun is_publish :: "event \<Rightarrow> bool" where
  "is_publish (Publish t p x) = True"
| "is_publish e = False"



text \<open>The payloads handed to \<^verbatim>\<open>client.publish\<close> for one topic, in order, whether or not
  the call went through.\<close>

fun published_on :: "string \<Rightarrow> event list \<Rightarrow> json list" where
  "published_on t [] = []"
| "published_on t (Publish t' p x # es) =
     (if t' = t then p # published_on t es else published_on t es)"
| "published_on t (e # es) = published_on t es"

text \<open>The trace without its log lines.\<close>

definition actions :: "event list \<Rightarrow> event list" where
  "actions es = filter (\<lambda>e. \<not> is_print e) es"

text \<open>The calls of \<open>publish_health_status\<close> made at the given clock readings, one after the
  other.\<close>

fun health_calls :: "string \<Rightarrow> int list \<Rightarrow> world \<Rightarrow> world" where
  "health_calls mid [] w = w"
| "health_calls mid (now # nows) w =
     health_calls mid nows (snd (publish_health_status mid (w\<lparr>clock := now\<rparr>)))"

text \<open>Whether \<^verbatim>\<open>int()\<close> takes the value or rejects it with a ValueError: it raises a
  TypeError on \<^verbatim>\<open>None\<close>, a list and a dictionary, an OverflowError on an infinite float.\<close>

fun int_accepts :: "json \<Rightarrow> bool" where
  "int_accepts JNull = False"
| "int_accepts (JArr xs) = False"
| "int_accepts (JObj kvs) = False"
| "int_accepts (JFloat FloatInf) = False"
| "int_accepts v = True"

subsection \<open>A sample environment\<close>

text \<open>A decoder that takes ASCII, a JSON reader that knows the payloads used below, a
  server with one script and one empty resource, and a freshly booted device with a
  live script.\<close>

definition sample_payloads :: "(string \<times> json) list" where
  \<open>sample_payloads =
     [(''{"qrcode_id":"Q1","pulses":3}'', JObj [(''qrcode_id'', JStr ''Q1''), (''pulses'', JInt 3)]),
      (''{"qrcode_id":"","pulses":3}'', JObj [(''qrcode_id'', JStr []), (''pulses'', JInt 3)]),
      (''{"qrcode_id":"Q1","pulses":0}'', JObj [(''qrcode_id'', JStr ''Q1''), (''pulses'', JInt 0)]),
      (''{"qrcode_id":"","pulses":0}'', JObj [(''qrcode_id'', JStr []), (''pulses'', JInt 0)]),
      (''{"pulses":2}'', JObj [(''pulses'', JInt 2)]),
      (''{"pulses":null}'', JObj [(''pulses'', JNull)]),
      (''{"action":"reset"}'', JObj [(''action'', JStr ''reset'')]),
      (''{"action":"update","url":"http://x/y"}'',
         JObj [(''action'', JStr ''update''), (''url'', JStr ''http://x/y'')])]\<close>

definition sample_env :: env where
  "sample_env =
     \<lparr>utf8_ok = (\<lambda>s. list_all (\<lambda>c. of_char c < (128::nat)) s),
      loads = (\<lambda>s. case map_of sample_payloads s of
                      None \<Rightarrow> Inl ''syntax error in JSON''
                    | Some j \<Rightarrow> Inr j),
      int_of_str = (\<lambda>s. None),
      str_of = (\<lambda>j. case j of JStr s \<Rightarrow> s | _ \<Rightarrow> []),
      http_get = (\<lambda>u. if u = JStr ''http://x/y'' then Inr (200, ''print(1)'')
                       else if u = JStr ''http://x/empty'' then Inr (200, [])
                       else Inl (OSError ''ECONNREFUSED''))\<rparr>"

definition boot_world :: world where
  "boot_world =
     \<lparr>trace = [], files = [''main.py'' \<mapsto> ''print(0)''], last_health_check = 0, clock = 0,
      mem_free = 100000, mem_alloc = 20000,
      pub_script = [], pin_script = [], fs_script = [], prep_script = [], conn_script = []\<rparr>"

text \<open>The file store after the swap of lines 236-251, from the store that holds the staged
  file.\<close>

definition swapped_files :: "(string \<rightharpoonup> string) \<Rightarrow> string \<Rightarrow> (string \<rightharpoonup> string)" where
  "swapped_files fs content =
     (\<lambda>p. if p = current_script_path then Some content
          else if p = temp_script_path then None
          else if p = old_script_path then fs current_script_path
          else fs p)"

text \<open>The decoded object goes to the pulse branch: its \<open>action\<close> is neither \<open>reset\<close> nor
  \<open>update\<close> (it may be absent, or any other value).\<close>

definition pulse_handled :: "(string \<times> json) list \<Rightarrow> bool" where
  "pulse_handled kvs =
     (map_of kvs ''action'' \<noteq> Some (JStr ''reset'') \<and> map_of kvs ''action'' \<noteq> Some (JStr ''update''))"

text \<open>What \<^verbatim>\<open>payload_data.get('pulses', 0)\<close> reads.\<close>

definition pulses_field :: "(string \<times> json) list \<Rightarrow> json" where
  "pulses_field kvs = (case map_of kvs ''pulses'' of None \<Rightarrow> JInt 0 | Some v \<Rightarrow> v)"

text \<open>The pin answers all of the \<open>2 * n\<close> calls of \<open>n\<close> on/off cycles without raising.\<close>

definition pins_ok :: "nat \<Rightarrow> exn option list \<Rightarrow> bool" where
  "pins_ok n s = list_all (\<lambda>x. x = None) (take (2 * n) s)"

section \<open>Properties\<close>

subsection \<open>Running statements\<close>

lemmas run_defs =
  ret_def raise_def and_then_def seq_def try_except_def print_line_def sleep_ms_def
  machine_reset_def is_Exception_def emit_def

lemma new_events_append [simp]:
  "new_events w (w'\<lparr>trace := trace w @ es\<rparr>) = es"
  by (simp add: new_events_def)

lemma sample_utf8_ascii:
  "utf8_ok sample_env s = list_all (\<lambda>c. of_char c < (128::nat)) s"
  by (simp add: sample_env_def)

subsection \<open>Messages on other topics\<close>




subsection \<open>The reset command\<close>

lemma publish_run:
  "publish t p w =
     (outcome (next_outcome (pub_script w)),
      w\<lparr>pub_script := tl (pub_script w),
        trace := trace w @ [Publish t p (next_outcome (pub_script w))]\<rparr>)"
  by (simp add: publish_def Let_def emit_def)

lemma reset_command_run:
  "reset_command mid w =
     (Reboot, w\<lparr>pub_script := tl (pub_script w),
               trace := trace w @
                 [Print INFO ''Received reset command. Resetting device...'',
                  Publish (MQTT_TOPIC_PUB mid) (status_payload ''resetting'') (next_outcome (pub_script w))]
                 @ (case next_outcome (pub_script w) of
                      None \<Rightarrow> [Print INFO ''Published resetting status.'', Sleep 1000]
                    | Some e \<Rightarrow> [Print ERROR ''Could not publish resetting status''])
                 @ [Reset]\<rparr>)"
  by (simp add: reset_command_def publish_run outcome_def run_defs split: option.splits)

lemma sub_cb_reset:
  assumes "utf8_ok env msg" "utf8_ok env (MQTT_TOPIC_SUB mid)"
    and "loads env msg = Inr (JObj kvs)" "map_of kvs ''action'' = Some (JStr ''reset'')"
  shows "sub_cb env mid (MQTT_TOPIC_SUB mid) msg w =
     (Reboot, w\<lparr>pub_script := tl (pub_script w),
               trace := trace w @
                 [Print INFO ''Received raw message'',
                  Print INFO ''Received reset command. Resetting device...'',
                  Publish (MQTT_TOPIC_PUB mid) (status_payload ''resetting'') (next_outcome (pub_script w))]
                 @ (case next_outcome (pub_script w) of
                      None \<Rightarrow> [Print INFO ''Published resetting status.'', Sleep 1000]
                    | Some e \<Rightarrow> [Print ERROR ''Could not publish resetting status''])
                 @ [Reset]\<rparr>)"
  using assms
  by (simp add: sub_cb_def bytes_decode_def handle_command_def json_loads_def dict_get_def
      dict_get_default_def reset_command_run run_defs)

lemma tick_reboot:
  "check_msg env mid p w = (Reboot, w') \<Longrightarrow> tick env mid p w = (Reboot, w')"
  by (simp add: tick_def run_defs)

text \<open>
  Claim C7, as the code has it. A reset command makes one attempt to publish
  \<open>{"status": "resetting"}\<close> on status-out and then reboots: the call does not return,
  and the loop sees none of the inputs that follow. The one-second wait is inside the
  \<^verbatim>\<open>try\<close>, after the publish: it happens when the publish went through; when the
  publish raises, the failure is logged and the reboot follows at once.
\<close>

theorem reset_command_terminal:
  assumes "utf8_ok env msg" "utf8_ok env (MQTT_TOPIC_SUB mid)"
    and "loads env msg = Inr (JObj kvs)" "map_of kvs ''action'' = Some (JStr ''reset'')"
  shows "fst (sub_cb env mid (MQTT_TOPIC_SUB mid) msg w) = Reboot
       \<and> actions (new_events w (snd (sub_cb env mid (MQTT_TOPIC_SUB mid) msg w)))
           = Publish (MQTT_TOPIC_PUB mid) (status_payload ''resetting'') (next_outcome (pub_script w))
             # (case next_outcome (pub_script w) of None \<Rightarrow> [Sleep 1000] | Some e \<Rightarrow> [])
             @ [Reset]
       \<and> (next_outcome (pub_script w) \<noteq> None \<longrightarrow>
            Print ERROR ''Could not publish resetting status''
              \<in> set (new_events w (snd (sub_cb env mid (MQTT_TOPIC_SUB mid) msg w))))
       \<and> main_loop env mid ((now, Message (MQTT_TOPIC_SUB mid) msg) # rest) w
           = (Reboot, snd (sub_cb env mid (MQTT_TOPIC_SUB mid) msg (w\<lparr>clock := now\<rparr>)))"
proof -
  note run = sub_cb_reset [OF assms]
  have a: "fst (sub_cb env mid (MQTT_TOPIC_SUB mid) msg w) = Reboot"
    by (simp add: run)
  have b: "actions (new_events w (snd (sub_cb env mid (MQTT_TOPIC_SUB mid) msg w)))
           = Publish (MQTT_TOPIC_PUB mid) (status_payload ''resetting'') (next_outcome (pub_script w))
             # (case next_outcome (pub_script w) of None \<Rightarrow> [Sleep 1000] | Some e \<Rightarrow> [])
             @ [Reset]"
    by (simp add: run new_events_def actions_def split: option.splits)
  have c: "next_outcome (pub_script w) \<noteq> None \<longrightarrow>
            Print ERROR ''Could not publish resetting status''
              \<in> set (new_events w (snd (sub_cb env mid (MQTT_TOPIC_SUB mid) msg w)))"
    by (auto simp add: run new_events_def)
  have "check_msg env mid (Message (MQTT_TOPIC_SUB mid) msg) (w\<lparr>clock := now\<rparr>)
          = (Reboot, snd (sub_cb env mid (MQTT_TOPIC_SUB mid) msg (w\<lparr>clock := now\<rparr>)))"
    by (simp add: check_msg_def run)
  then have d: "main_loop env mid ((now, Message (MQTT_TOPIC_SUB mid) msg) # rest) w
           = (Reboot, snd (sub_cb env mid (MQTT_TOPIC_SUB mid) msg (w\<lparr>clock := now\<rparr>)))"
    by (simp add: tick_reboot)
  from a b c d show ?thesis by blast
qed

lemma sample_loads:
  "loads sample_env s = (case map_of sample_payloads s of
                      None \<Rightarrow> Inl ''syntax error in JSON''
                    | Some j \<Rightarrow> Inr j)"
  by (simp add: sample_env_def)

lemma sample_loads_reset:
  \<open>loads sample_env ''{"action":"reset"}'' = Inr (JObj [(''action'', JStr ''reset'')])\<close>
  by (simp add: sample_loads sample_payloads_def)

theorem reset_command_terminal_witness:
  \<open>fst (sub_cb sample_env ''M1'' (MQTT_TOPIC_SUB ''M1'') ''{"action":"reset"}'' boot_world) = Reboot
   \<and> fst (main_loop sample_env ''M1''
         [(5, Message (MQTT_TOPIC_SUB ''M1'') ''{"action":"reset"}''),
          (6, Message (MQTT_TOPIC_SUB ''M1'') ''{"qrcode_id":"Q1","pulses":3}'')] boot_world) = Reboot\<close>
proof -
  have h1: \<open>utf8_ok sample_env ''{"action":"reset"}''\<close>
    by (simp add: sample_utf8_ascii)
  have h2: "utf8_ok sample_env (MQTT_TOPIC_SUB ''M1'')"
    by (simp add: sample_utf8_ascii MQTT_TOPIC_SUB_def)
  have h4: "map_of [(''action'', JStr ''reset'')] ''action'' = Some (JStr ''reset'')"
    by simp
  show ?thesis
    using reset_command_terminal [OF h1 h2 sample_loads_reset h4, of boot_world 5
        \<open>[(6, Message (MQTT_TOPIC_SUB ''M1'') ''{"qrcode_id":"Q1","pulses":3}'')]\<close>]
    by simp
qed

text \<open>
  Claim C7 as stated has the handler wait before the reboot in every case. With a broker
  that refuses the publish, the reset follows the failed publish directly.
\<close>

theorem reset_publish_failure_skips_wait:
  \<open>actions (trace (snd (sub_cb sample_env ''M1'' (MQTT_TOPIC_SUB ''M1'') ''{"action":"reset"}''
       (boot_world\<lparr>pub_script := [Some (OSError ''ECONNRESET'')]\<rparr>))))
     = [Publish ''vending/machine/M1/status'' (JObj [(''status'', JStr ''resetting'')])
          (Some (OSError ''ECONNRESET'')),
        Reset]\<close>
proof -
  have h1: \<open>utf8_ok sample_env ''{"action":"reset"}''\<close>
    by (simp add: sample_utf8_ascii)
  have h2: "utf8_ok sample_env (MQTT_TOPIC_SUB ''M1'')"
    by (simp add: sample_utf8_ascii MQTT_TOPIC_SUB_def)
  have h4: "map_of [(''action'', JStr ''reset'')] ''action'' = Some (JStr ''reset'')"
    by simp
  show ?thesis
    by (simp add: sub_cb_reset [OF h1 h2 sample_loads_reset h4] boot_world_def actions_def
        next_outcome_def MQTT_TOPIC_PUB_def status_payload_def)
qed

subsection \<open>Self-update\<close>

lemmas fs_defs =
  fs_write_def fs_stat_size_def fs_remove_def fs_rename_def urequests_get_def enoent_def
  Let_def

lemmas path_defs = temp_script_path_def old_script_path_def current_script_path_def

lemma no_fault [simp]: "next_outcome [] = None"
  by (simp add: next_outcome_def)

lemma fs_script_spent [simp]: "fs_script w = [] \<Longrightarrow> w\<lparr>fs_script := []\<rparr> = w"
  by (cases w) simp

lemma ota_download_ok:
  assumes "http_get env url = Inr (200, content)" "content \<noteq> []" "fs_script w = []"
  shows "ota_download env url w =
     (Ok True, w\<lparr>files := (files w)(temp_script_path \<mapsto> content),
                 trace := trace w @
                   [Print DEBUG ''Downloading script'', HttpGet url,
                    Print DEBUG ''Download successful (status code 200). Saving...'',
                    FileWrite temp_script_path None, Print INFO ''New script saved'',
                    FileStat temp_script_path None,
                    Print INFO ''Basic validation passed (file exists and size > 0).'']\<rparr>)"
  using assms by (simp add: ota_download_def fs_defs run_defs)

lemma ota_download_empty:
  assumes "http_get env url = Inr (200, [])" "fs_script w = []"
  shows "ota_download env url w =
     (Ok False, w\<lparr>files := (files w)(temp_script_path := None),
                 trace := trace w @
                   [Print DEBUG ''Downloading script'', HttpGet url,
                    Print DEBUG ''Download successful (status code 200). Saving...'',
                    FileWrite temp_script_path None, Print INFO ''New script saved'',
                    FileStat temp_script_path None,
                    Print ERROR ''Downloaded file is empty!'',
                    FileRemove temp_script_path None]\<rparr>)"
  using assms by (simp add: ota_download_def fs_defs run_defs)

lemma ota_swap_ok:
  assumes "fs_script w = []" "files w temp_script_path = Some content"
  shows "ota_swap mid w =
     (Reboot,
      w\<lparr>files := swapped_files (files w) content,
        pub_script := tl (pub_script w),
        trace := trace w @
          (case files w old_script_path of
             None \<Rightarrow> [FileRemove old_script_path (Some enoent)]
           | Some b \<Rightarrow> [FileRemove old_script_path None, Print DEBUG ''Removed old backup''])
          @ (case files w current_script_path of
               None \<Rightarrow> [FileRename current_script_path old_script_path (Some enoent),
                         Print WARNING ''Could not rename current script (might not exist?)'']
             | Some c \<Rightarrow> [FileRename current_script_path old_script_path None,
                           Print DEBUG ''Renamed current to old''])
          @ [FileRename temp_script_path current_script_path None,
             Print INFO ''Renamed new script. Update successful.'',
             Publish (MQTT_TOPIC_PUB mid) (status_payload ''ota_success_rebooting'')
               (next_outcome (pub_script w))]
          @ (case next_outcome (pub_script w) of
               None \<Rightarrow> []
             | Some e \<Rightarrow> [Print WARNING ''Could not publish ota_success status''])
          @ [Print INFO ''Resetting device to apply update...'', Sleep 2000, Reset]\<rparr>)"
proof -
  have paths: "old_script_path \<noteq> temp_script_path" "current_script_path \<noteq> temp_script_path"
    "current_script_path \<noteq> old_script_path"
    by (simp_all add: path_defs)
  show ?thesis
  proof (cases "files w old_script_path")
    case None
    show ?thesis
    proof (cases "files w current_script_path")
      case cn: None
      have f: "(files w)(temp_script_path := None, current_script_path \<mapsto> content)
                 = swapped_files (files w) content"
        using None cn paths by (auto simp add: swapped_files_def fun_eq_iff)
      show ?thesis
        using assms None cn paths
        by (simp add: ota_swap_def fs_defs run_defs publish_run outcome_def f
            split: option.splits)
    next
      case (Some c)
      have f: "(files w)(current_script_path := None, old_script_path \<mapsto> c,
                         temp_script_path := None, current_script_path \<mapsto> content)
                 = swapped_files (files w) content"
        using None Some paths by (auto simp add: swapped_files_def fun_eq_iff)
      show ?thesis
        using assms None Some paths
        by (simp add: ota_swap_def fs_defs run_defs publish_run outcome_def f
            split: option.splits)
    qed
  next
    case (Some b)
    show ?thesis
    proof (cases "files w current_script_path")
      case None
      have f: "(files w)(old_script_path := None, temp_script_path := None,
                         current_script_path \<mapsto> content)
                 = swapped_files (files w) content"
        using None Some paths by (auto simp add: swapped_files_def fun_eq_iff)
      show ?thesis
        using assms None Some paths
        by (simp add: ota_swap_def fs_defs run_defs publish_run outcome_def f
            split: option.splits)
    next
      case sc: (Some c)
      have f: "(files w)(old_script_path \<mapsto> c, temp_script_path := None,
                         current_script_path \<mapsto> content)
                 = swapped_files (files w) content"
        using Some sc paths by (auto simp add: swapped_files_def fun_eq_iff)
      show ?thesis
        using assms Some sc paths
        by (simp add: ota_swap_def fs_defs run_defs publish_run outcome_def f
            split: option.splits)
    qed
  qed
qed

subsection \<open>Running the update\<close>

lemma perform_ota_update_success:
  assumes "http_get env url = Inr (200, content)" "content \<noteq> []" "fs_script w = []"
  shows "perform_ota_update env mid url w =
     (Reboot,
      w\<lparr>files := swapped_files ((files w)(temp_script_path \<mapsto> content)) content,
        pub_script := tl (tl (pub_script w)),
        trace := trace w @
          [Print INFO ''Starting OTA update'',
           Publish (MQTT_TOPIC_PUB mid) (JObj [(''status'', JStr ''ota_starting''), (''url'', url)])
             (next_outcome (pub_script w))]
          @ (case next_outcome (pub_script w) of
               None \<Rightarrow> []
             | Some e \<Rightarrow> [Print WARNING ''Could not publish ota_starting status''])
          @ [Print DEBUG ''Downloading script'', HttpGet url,
             Print DEBUG ''Download successful (status code 200). Saving...'',
             FileWrite temp_script_path None, Print INFO ''New script saved'',
             FileStat temp_script_path None,
             Print INFO ''Basic validation passed (file exists and size > 0).'']
          @ (case files w old_script_path of
               None \<Rightarrow> [FileRemove old_script_path (Some enoent)]
             | Some b \<Rightarrow> [FileRemove old_script_path None, Print DEBUG ''Removed old backup''])
          @ (case files w current_script_path of
               None \<Rightarrow> [FileRename current_script_path old_script_path (Some enoent),
                         Print WARNING ''Could not rename current script (might not exist?)'']
             | Some c \<Rightarrow> [FileRename current_script_path old_script_path None,
                           Print DEBUG ''Renamed current to old''])
          @ [FileRename temp_script_path current_script_path None,
             Print INFO ''Renamed new script. Update successful.'',
             Publish (MQTT_TOPIC_PUB mid) (status_payload ''ota_success_rebooting'')
               (next_outcome (tl (pub_script w)))]
          @ (case next_outcome (tl (pub_script w)) of
               None \<Rightarrow> []
             | Some e \<Rightarrow> [Print WARNING ''Could not publish ota_success status''])
          @ [Print INFO ''Resetting device to apply update...'', Sleep 2000, Reset]\<rparr>)"
proof -
  have paths: "old_script_path \<noteq> temp_script_path" "current_script_path \<noteq> temp_script_path"
    by (simp_all add: path_defs)
  show ?thesis
  proof (cases "next_outcome (pub_script w)")
    case None
    show ?thesis
      using assms None paths
      by (simp add: perform_ota_update_def run_defs publish_run outcome_def
          ota_download_ok ota_swap_ok)
  next
    case (Some e)
    show ?thesis
      using assms Some paths
      by (simp add: perform_ota_update_def run_defs publish_run outcome_def
          ota_download_ok ota_swap_ok)
  qed
qed

lemma perform_ota_update_empty:
  assumes "http_get env url = Inr (200, [])" "fs_script w = []"
  shows "perform_ota_update env mid url w =
     (Ok (),
      w\<lparr>files := (files w)(temp_script_path := None),
        pub_script := tl (tl (pub_script w)),
        trace := trace w @
          [Print INFO ''Starting OTA update'',
           Publish (MQTT_TOPIC_PUB mid) (JObj [(''status'', JStr ''ota_starting''), (''url'', url)])
             (next_outcome (pub_script w))]
          @ (case next_outcome (pub_script w) of
               None \<Rightarrow> []
             | Some e \<Rightarrow> [Print WARNING ''Could not publish ota_starting status''])
          @ [Print DEBUG ''Downloading script'', HttpGet url,
             Print DEBUG ''Download successful (status code 200). Saving...'',
             FileWrite temp_script_path None, Print INFO ''New script saved'',
             FileStat temp_script_path None,
             Print ERROR ''Downloaded file is empty!'',
             FileRemove temp_script_path None,
             Print ERROR ''OTA update failed due to download error.'',
             Publish (MQTT_TOPIC_PUB mid) (status_payload ''ota_download_failed'')
               (next_outcome (tl (pub_script w)))]
          @ (case next_outcome (tl (pub_script w)) of
               None \<Rightarrow> []
             | Some e \<Rightarrow> [Print WARNING ''Could not publish ota_download_failed status''])\<rparr>)"
proof (cases "next_outcome (pub_script w)")
  case None
  show ?thesis
    using assms None
    by (cases "next_outcome (tl (pub_script w))")
       (simp_all add: perform_ota_update_def run_defs publish_run outcome_def ota_download_empty)
next
  case (Some e)
  show ?thesis
    using assms Some
    by (cases "next_outcome (tl (pub_script w))")
       (simp_all add: perform_ota_update_def run_defs publish_run outcome_def ota_download_empty)
qed

lemma sample_http_script:
  "http_get sample_env (JStr ''http://x/y'') = Inr (200, ''print(1)'')"
  by (simp add: sample_env_def)

lemma sample_http_empty:
  "http_get sample_env (JStr ''http://x/empty'') = Inr (200, [])"
  by (simp add: sample_env_def)

text \<open>
  Claim C2. When the download answers 200 with a non-empty body and the file store does
  not fail (a missing file is its only error), \<open>perform_ota_update\<close> acts in this order:
  it publishes \<open>ota_starting\<close>, fetches, writes and checks the staged file, removes the
  previous backup (not-found ignored), renames the live file to the backup slot (not-found
  ignored, so a first deploy goes through), renames the staged file into the live slot,
  publishes \<open>ota_success_rebooting\<close>, waits and reboots. Afterwards the live slot holds the
  new content, the backup slot what the live slot held before, the staging slot is empty
  and no other file has changed.
\<close>

theorem ota_update_success_rotates_backup:
  assumes "http_get env url = Inr (200, content)" "content \<noteq> []" "fs_script w = []"
  shows "fst (perform_ota_update env mid url w) = Reboot
       \<and> actions (new_events w (snd (perform_ota_update env mid url w))) =
           [Publish (MQTT_TOPIC_PUB mid) (JObj [(''status'', JStr ''ota_starting''), (''url'', url)])
              (next_outcome (pub_script w)),
            HttpGet url,
            FileWrite temp_script_path None,
            FileStat temp_script_path None,
            FileRemove old_script_path
              (if files w old_script_path = None then Some enoent else None),
            FileRename current_script_path old_script_path
              (if files w current_script_path = None then Some enoent else None),
            FileRename temp_script_path current_script_path None,
            Publish (MQTT_TOPIC_PUB mid) (status_payload ''ota_success_rebooting'')
              (next_outcome (tl (pub_script w))),
            Sleep 2000,
            Reset]
       \<and> files (snd (perform_ota_update env mid url w)) current_script_path = Some content
       \<and> files (snd (perform_ota_update env mid url w)) old_script_path
           = files w current_script_path
       \<and> files (snd (perform_ota_update env mid url w)) temp_script_path = None
       \<and> (\<forall>p. p \<noteq> current_script_path \<and> p \<noteq> old_script_path \<and> p \<noteq> temp_script_path \<longrightarrow>
              files (snd (perform_ota_update env mid url w)) p = files w p)"
proof -
  note run = perform_ota_update_success [OF assms]
  have paths: "old_script_path \<noteq> temp_script_path" "current_script_path \<noteq> temp_script_path"
    "current_script_path \<noteq> old_script_path"
    by (simp_all add: path_defs)
  have a: "fst (perform_ota_update env mid url w) = Reboot"
    by (simp add: run)
  have b: "actions (new_events w (snd (perform_ota_update env mid url w))) =
           [Publish (MQTT_TOPIC_PUB mid) (JObj [(''status'', JStr ''ota_starting''), (''url'', url)])
              (next_outcome (pub_script w)),
            HttpGet url,
            FileWrite temp_script_path None,
            FileStat temp_script_path None,
            FileRemove old_script_path
              (if files w old_script_path = None then Some enoent else None),
            FileRename current_script_path old_script_path
              (if files w current_script_path = None then Some enoent else None),
            FileRename temp_script_path current_script_path None,
            Publish (MQTT_TOPIC_PUB mid) (status_payload ''ota_success_rebooting'')
              (next_outcome (tl (pub_script w))),
            Sleep 2000,
            Reset]"
    by (simp add: run actions_def split: option.splits)
  have c: "files (snd (perform_ota_update env mid url w)) =
             swapped_files ((files w)(temp_script_path \<mapsto> content)) content"
    by (simp add: run)
  from a b show ?thesis
    using paths by (simp add: c swapped_files_def)
qed

theorem ota_update_success_rotates_backup_witness:
  "http_get sample_env (JStr ''http://x/y'') = Inr (200, ''print(1)'')
   \<and> ''print(1)'' \<noteq> [] \<and> fs_script boot_world = []
   \<and> fst (perform_ota_update sample_env ''M1'' (JStr ''http://x/y'') boot_world) = Reboot
   \<and> files (snd (perform_ota_update sample_env ''M1'' (JStr ''http://x/y'') boot_world)) ''main.py''
       = Some ''print(1)''
   \<and> files (snd (perform_ota_update sample_env ''M1'' (JStr ''http://x/y'') boot_world)) ''main_old.py''
       = Some ''print(0)''"
proof -
  have h2: "''print(1)'' \<noteq> []" by simp
  have h3: "fs_script boot_world = []" by (simp add: boot_world_def)
  have live: "files boot_world ''main.py'' = Some ''print(0)''" by (simp add: boot_world_def)
  show ?thesis
    using sample_http_script h3 live
      ota_update_success_rotates_backup [OF sample_http_script h2 h3, of "''M1''"]
    by (simp add: path_defs)
qed

text \<open>
  Claim C3. When the download answers 200 with an empty body (the staged file has size 0)
  and the file store does not fail, \<open>perform_ota_update\<close> removes the staged file and
  returns: between \<open>ota_starting\<close> and \<open>ota_download_failed\<close>, the two messages it publishes
  on status-out, it writes, checks and removes the staged file and does nothing else. No
  file is renamed, the device is not reset, and every other file is as before.
\<close>

theorem ota_update_empty_download_fails:
  assumes "http_get env url = Inr (200, [])" "fs_script w = []"
  shows "fst (perform_ota_update env mid url w) = Ok ()
       \<and> actions (new_events w (snd (perform_ota_update env mid url w))) =
           [Publish (MQTT_TOPIC_PUB mid) (JObj [(''status'', JStr ''ota_starting''), (''url'', url)])
              (next_outcome (pub_script w)),
            HttpGet url,
            FileWrite temp_script_path None,
            FileStat temp_script_path None,
            FileRemove temp_script_path None,
            Publish (MQTT_TOPIC_PUB mid) (status_payload ''ota_download_failed'')
              (next_outcome (tl (pub_script w)))]
       \<and> published_on (MQTT_TOPIC_PUB mid) (new_events w (snd (perform_ota_update env mid url w)))
           = [JObj [(''status'', JStr ''ota_starting''), (''url'', url)],
              status_payload ''ota_download_failed'']
       \<and> Reset \<notin> set (new_events w (snd (perform_ota_update env mid url w)))
       \<and> (\<forall>src dst x. FileRename src dst x
              \<notin> set (new_events w (snd (perform_ota_update env mid url w))))
       \<and> files (snd (perform_ota_update env mid url w)) temp_script_path = None
       \<and> (\<forall>p. p \<noteq> temp_script_path \<longrightarrow>
              files (snd (perform_ota_update env mid url w)) p = files w p)"
proof -
  note run = perform_ota_update_empty [OF assms]
  have a: "fst (perform_ota_update env mid url w) = Ok ()"
    by (simp add: run)
  have b: "actions (new_events w (snd (perform_ota_update env mid url w))) =
           [Publish (MQTT_TOPIC_PUB mid) (JObj [(''status'', JStr ''ota_starting''), (''url'', url)])
              (next_outcome (pub_script w)),
            HttpGet url,
            FileWrite temp_script_path None,
            FileStat temp_script_path None,
            FileRemove temp_script_path None,
            Publish (MQTT_TOPIC_PUB mid) (status_payload ''ota_download_failed'')
              (next_outcome (tl (pub_script w)))]"
    by (simp add: run actions_def split: option.splits)
  have c: "published_on (MQTT_TOPIC_PUB mid) (new_events w (snd (perform_ota_update env mid url w)))
           = [JObj [(''status'', JStr ''ota_starting''), (''url'', url)],
              status_payload ''ota_download_failed'']"
    by (simp add: run split: option.splits)
  have d: "Reset \<notin> set (new_events w (snd (perform_ota_update env mid url w)))"
    by (simp add: run split: option.splits)
  have e: "\<forall>src dst x. FileRename src dst x
              \<notin> set (new_events w (snd (perform_ota_update env mid url w)))"
    by (simp add: run split: option.splits)
  have f: "files (snd (perform_ota_update env mid url w)) = (files w)(temp_script_path := None)"
    by (simp add: run)
  from a b c d e show ?thesis
    by (simp add: f)
qed

theorem ota_update_empty_download_fails_witness:
  "http_get sample_env (JStr ''http://x/empty'') = Inr (200, []) \<and> fs_script boot_world = []
   \<and> fst (perform_ota_update sample_env ''M1'' (JStr ''http://x/empty'') boot_world) = Ok ()
   \<and> published_on (MQTT_TOPIC_PUB ''M1'')
        (new_events boot_world
           (snd (perform_ota_update sample_env ''M1'' (JStr ''http://x/empty'') boot_world)))
       = [JObj [(''status'', JStr ''ota_starting''), (''url'', JStr ''http://x/empty'')],
          JObj [(''status'', JStr ''ota_download_failed'')]]
   \<and> files (snd (perform_ota_update sample_env ''M1'' (JStr ''http://x/empty'') boot_world)) ''main.py''
       = Some ''print(0)''"
proof -
  have h2: "fs_script boot_world = []" by (simp add: boot_world_def)
  have live: "files boot_world ''main.py'' = Some ''print(0)''" by (simp add: boot_world_def)
  show ?thesis
    using sample_http_empty h2 live
      ota_update_empty_download_fails [OF sample_http_empty h2, of "''M1''"]
    by (simp add: path_defs status_payload_def)
qed

text \<open>
  Claim C10. Once the staged file has been renamed into the live slot, a publish of
  \<open>ota_success_rebooting\<close> that raises is only logged: the wait and the reboot follow, the
  new content stays in the live slot and the former live content in the backup slot.
\<close>

theorem ota_reboots_when_success_publish_fails:
  assumes "http_get env url = Inr (200, content)" "content \<noteq> []" "fs_script w = []"
    and "next_outcome (tl (pub_script w)) = Some e"
  shows "fst (perform_ota_update env mid url w) = Reboot
       \<and> drop 6 (actions (new_events w (snd (perform_ota_update env mid url w)))) =
           [FileRename temp_script_path current_script_path None,
            Publish (MQTT_TOPIC_PUB mid) (status_payload ''ota_success_rebooting'') (Some e),
            Sleep 2000,
            Reset]
       \<and> Print WARNING ''Could not publish ota_success status''
           \<in> set (new_events w (snd (perform_ota_update env mid url w)))
       \<and> files (snd (perform_ota_update env mid url w)) current_script_path = Some content
       \<and> files (snd (perform_ota_update env mid url w)) old_script_path
           = files w current_script_path"
proof -
  note run = perform_ota_update_success [OF assms(1-3)]
  have paths: "old_script_path \<noteq> temp_script_path" "current_script_path \<noteq> temp_script_path"
    "current_script_path \<noteq> old_script_path"
    by (simp_all add: path_defs)
  have a: "fst (perform_ota_update env mid url w) = Reboot"
    by (simp add: run)
  have b: "drop 6 (actions (new_events w (snd (perform_ota_update env mid url w)))) =
           [FileRename temp_script_path current_script_path None,
            Publish (MQTT_TOPIC_PUB mid) (status_payload ''ota_success_rebooting'') (Some e),
            Sleep 2000,
            Reset]"
    using assms(4) by (simp add: run actions_def split: option.splits)
  have c: "Print WARNING ''Could not publish ota_success status''
           \<in> set (new_events w (snd (perform_ota_update env mid url w)))"
    using assms(4) by (simp add: run)
  have d: "files (snd (perform_ota_update env mid url w)) =
             swapped_files ((files w)(temp_script_path \<mapsto> content)) content"
    by (simp add: run)
  from a b c show ?thesis
    using paths by (simp add: d swapped_files_def)
qed

theorem ota_reboots_when_success_publish_fails_witness:
  "http_get sample_env (JStr ''http://x/y'') = Inr (200, ''print(1)'')
   \<and> ''print(1)'' \<noteq> []
   \<and> fs_script (boot_world\<lparr>pub_script := [None, Some (OSError ''ECONNRESET'')]\<rparr>) = []
   \<and> next_outcome (tl (pub_script (boot_world\<lparr>pub_script := [None, Some (OSError ''ECONNRESET'')]\<rparr>)))
       = Some (OSError ''ECONNRESET'')
   \<and> fst (perform_ota_update sample_env ''M1'' (JStr ''http://x/y'')
            (boot_world\<lparr>pub_script := [None, Some (OSError ''ECONNRESET'')]\<rparr>)) = Reboot
   \<and> files (snd (perform_ota_update sample_env ''M1'' (JStr ''http://x/y'')
            (boot_world\<lparr>pub_script := [None, Some (OSError ''ECONNRESET'')]\<rparr>))) ''main.py''
       = Some ''print(1)''"
proof -
  have h2: "''print(1)'' \<noteq> []" by simp
  have h3: "fs_script (boot_world\<lparr>pub_script := [None, Some (OSError ''ECONNRESET'')]\<rparr>) = []"
    by (simp add: boot_world_def)
  have h4: "next_outcome (tl (pub_script (boot_world\<lparr>pub_script := [None, Some (OSError ''ECONNRESET'')]\<rparr>)))
       = Some (OSError ''ECONNRESET'')"
    by (simp add: next_outcome_def)
  show ?thesis
    using sample_http_script h3 h4
      ota_reboots_when_success_publish_fails [OF sample_http_script h2 h3 h4, of "''M1''"]
    by (simp add: path_defs)
qed

subsection \<open>Heartbeat\<close>

lemma health_not_due:
  assumes "clock w - last_health_check w < HEALTH_CHECK_INTERVAL"
  shows "publish_health_status mid w = (Ok (), w)"
  using assms by (simp add: publish_health_status_def)

lemma health_due_run:
  assumes "clock w - last_health_check w \<ge> HEALTH_CHECK_INTERVAL"
    and "next_outcome (prep_script w) = None"
  shows "publish_health_status mid w =
     (Ok (),
      w\<lparr>prep_script := tl (prep_script w),
        pub_script := tl (pub_script w),
        trace := trace w @
          [GcCollect, Print DEBUG ''Memory'', Print DEBUG ''Prepared health JSON'',
           Print DEBUG ''Attempting to publish'',
           Publish (MQTT_TOPIC_HEALTH mid) (health_payload (clock w) (mem_free w) (mem_alloc w))
             (next_outcome (pub_script w))]
          @ (case next_outcome (pub_script w) of
               None \<Rightarrow> [Print INFO ''Successfully published health status'']
             | Some e \<Rightarrow>
                 [if is_OSError e
                  then Print ERROR ''OSError during MQTT publish for health status''
                  else Print ERROR ''Unexpected error during MQTT publish for health status'']),
        last_health_check :=
          (if next_outcome (pub_script w) = None then clock w else last_health_check w)\<rparr>)"
proof (cases "next_outcome (pub_script w)")
  case None
  show ?thesis
    using assms None
    by (simp add: publish_health_status_def prepare_health_def check_memory_def time_time_def
        set_last_health_check_def run_defs publish_run outcome_def Let_def)
next
  case (Some e)
  show ?thesis
    using assms Some
    by (simp add: publish_health_status_def prepare_health_def check_memory_def time_time_def
        set_last_health_check_def run_defs publish_run outcome_def Let_def)
qed

lemma health_prep_fail_run:
  assumes "clock w - last_health_check w \<ge> HEALTH_CHECK_INTERVAL"
    and "next_outcome (prep_script w) = Some e"
  shows "publish_health_status mid w =
     (Ok (),
      w\<lparr>prep_script := tl (prep_script w),
        trace := trace w @
          [GcCollect, Print ERROR ''Failed to prepare health status data'']\<rparr>)"
  using assms
  by (simp add: publish_health_status_def prepare_health_def check_memory_def time_time_def
      run_defs Let_def)

lemma health_calls_idle:
  assumes "\<forall>t \<in> set nows. t - last_health_check w < HEALTH_CHECK_INTERVAL"
  shows "health_calls mid nows w = (if nows = [] then w else w\<lparr>clock := last nows\<rparr>)"
  using assms
proof (induction nows arbitrary: w)
  case Nil
  show ?case by simp
next
  case (Cons t ts)
  have step: "publish_health_status mid (w\<lparr>clock := t\<rparr>) = (Ok (), w\<lparr>clock := t\<rparr>)"
    using Cons.prems by (simp add: health_not_due)
  have rest: "\<forall>s \<in> set ts. s - last_health_check (w\<lparr>clock := t\<rparr>) < HEALTH_CHECK_INTERVAL"
    using Cons.prems by simp
  show ?case
    using Cons.IH [OF rest] by (simp add: step)
qed

lemma new_events_clock [simp]:
  "new_events w (w'\<lparr>clock := t\<rparr>) = new_events w w'"
  by (simp add: new_events_def)

lemma new_events_last_health_check [simp]:
  "new_events w (w'\<lparr>last_health_check := t\<rparr>) = new_events w w'"
  by (simp add: new_events_def)

lemma new_events_self [simp]: "new_events w w = []"
  by (simp add: new_events_def)

text \<open>
  Claim C5. One call of \<open>publish_health_status\<close>: when the clock is less than the
  interval past the timestamp it does nothing at all; when it is at least the interval
  past it and the data can be gathered, it makes exactly one publish, of the health sample
  on the health topic, and the timestamp becomes the clock if that publish went through
  and stays what it was if the publish raised; when gathering the data raises, nothing is
  published and the timestamp stays. A sequence of calls: as long as every clock reading
  is less than the interval past the timestamp, nothing is published; a call that is due
  and goes through, followed by calls less than the interval later, makes exactly one
  publish in all; and after a due call whose publish raised, the next call publishes again
  whatever the time between the two.
\<close>

theorem health_status_interval:
  "(clock w - last_health_check w < HEALTH_CHECK_INTERVAL \<longrightarrow>
      publish_health_status mid w = (Ok (), w))
 \<and> (clock w - last_health_check w \<ge> HEALTH_CHECK_INTERVAL \<and> next_outcome (prep_script w) = None \<longrightarrow>
      fst (publish_health_status mid w) = Ok ()
    \<and> filter is_publish (new_events w (snd (publish_health_status mid w)))
        = [Publish (MQTT_TOPIC_HEALTH mid)
             (health_payload (clock w) (mem_free w) (mem_alloc w)) (next_outcome (pub_script w))]
    \<and> last_health_check (snd (publish_health_status mid w))
        = (if next_outcome (pub_script w) = None then clock w else last_health_check w))
 \<and> (clock w - last_health_check w \<ge> HEALTH_CHECK_INTERVAL \<and> next_outcome (prep_script w) = Some e \<longrightarrow>
      fst (publish_health_status mid w) = Ok ()
    \<and> filter is_publish (new_events w (snd (publish_health_status mid w))) = []
    \<and> last_health_check (snd (publish_health_status mid w)) = last_health_check w)
 \<and> ((\<forall>t \<in> set nows. t - last_health_check w < HEALTH_CHECK_INTERVAL) \<longrightarrow>
      new_events w (health_calls mid nows w) = []
    \<and> last_health_check (health_calls mid nows w) = last_health_check w)
 \<and> (now - last_health_check w \<ge> HEALTH_CHECK_INTERVAL
      \<and> next_outcome (prep_script w) = None \<and> next_outcome (pub_script w) = None
      \<and> (\<forall>t \<in> set nows. t - now < HEALTH_CHECK_INTERVAL) \<longrightarrow>
      filter is_publish (new_events w (health_calls mid (now # nows) w))
        = [Publish (MQTT_TOPIC_HEALTH mid) (health_payload now (mem_free w) (mem_alloc w)) None]
    \<and> last_health_check (health_calls mid (now # nows) w) = now)
 \<and> (now - last_health_check w \<ge> HEALTH_CHECK_INTERVAL
      \<and> next_outcome (prep_script w) = None \<and> next_outcome (pub_script w) = Some e
      \<and> now \<le> now' \<and> next_outcome (tl (prep_script w)) = None \<longrightarrow>
      filter is_publish (new_events w (health_calls mid [now, now'] w))
        = [Publish (MQTT_TOPIC_HEALTH mid) (health_payload now (mem_free w) (mem_alloc w)) (Some e),
           Publish (MQTT_TOPIC_HEALTH mid) (health_payload now' (mem_free w) (mem_alloc w))
             (next_outcome (tl (pub_script w)))]
    \<and> last_health_check (health_calls mid [now, now'] w)
        = (if next_outcome (tl (pub_script w)) = None then now' else last_health_check w))"
proof -
  have a: "clock w - last_health_check w < HEALTH_CHECK_INTERVAL \<longrightarrow>
      publish_health_status mid w = (Ok (), w)"
    by (simp add: health_not_due)
  have b: "clock w - last_health_check w \<ge> HEALTH_CHECK_INTERVAL \<and> next_outcome (prep_script w) = None \<longrightarrow>
      fst (publish_health_status mid w) = Ok ()
    \<and> filter is_publish (new_events w (snd (publish_health_status mid w)))
        = [Publish (MQTT_TOPIC_HEALTH mid)
             (health_payload (clock w) (mem_free w) (mem_alloc w)) (next_outcome (pub_script w))]
    \<and> last_health_check (snd (publish_health_status mid w))
        = (if next_outcome (pub_script w) = None then clock w else last_health_check w)"
    by (simp add: health_due_run split: option.splits)
  have c: "clock w - last_health_check w \<ge> HEALTH_CHECK_INTERVAL \<and> next_outcome (prep_script w) = Some e \<longrightarrow>
      fst (publish_health_status mid w) = Ok ()
    \<and> filter is_publish (new_events w (snd (publish_health_status mid w))) = []
    \<and> last_health_check (snd (publish_health_status mid w)) = last_health_check w"
    by (simp add: health_prep_fail_run)
  have d: "(\<forall>t \<in> set nows. t - last_health_check w < HEALTH_CHECK_INTERVAL) \<longrightarrow>
      new_events w (health_calls mid nows w) = []
    \<and> last_health_check (health_calls mid nows w) = last_health_check w"
    by (simp add: health_calls_idle)
  have e: "now - last_health_check w \<ge> HEALTH_CHECK_INTERVAL
      \<and> next_outcome (prep_script w) = None \<and> next_outcome (pub_script w) = None
      \<and> (\<forall>t \<in> set nows. t - now < HEALTH_CHECK_INTERVAL) \<longrightarrow>
      filter is_publish (new_events w (health_calls mid (now # nows) w))
        = [Publish (MQTT_TOPIC_HEALTH mid) (health_payload now (mem_free w) (mem_alloc w)) None]
    \<and> last_health_check (health_calls mid (now # nows) w) = now"
    by (simp add: health_due_run health_calls_idle)
  have f: "now - last_health_check w \<ge> HEALTH_CHECK_INTERVAL
      \<and> next_outcome (prep_script w) = None \<and> next_outcome (pub_script w) = Some e
      \<and> now \<le> now' \<and> next_outcome (tl (prep_script w)) = None \<longrightarrow>
      filter is_publish (new_events w (health_calls mid [now, now'] w))
        = [Publish (MQTT_TOPIC_HEALTH mid) (health_payload now (mem_free w) (mem_alloc w)) (Some e),
           Publish (MQTT_TOPIC_HEALTH mid) (health_payload now' (mem_free w) (mem_alloc w))
             (next_outcome (tl (pub_script w)))]
    \<and> last_health_check (health_calls mid [now, now'] w)
        = (if next_outcome (tl (pub_script w)) = None then now' else last_health_check w)"
    by (simp add: health_due_run new_events_def split: option.splits)
  from a b c d e f show ?thesis
    by blast
qed

theorem health_status_interval_witness:
  "clock (boot_world\<lparr>clock := 30\<rparr>) - last_health_check (boot_world\<lparr>clock := 30\<rparr>)
     < HEALTH_CHECK_INTERVAL
 \<and> publish_health_status ''M1'' (boot_world\<lparr>clock := 30\<rparr>) = (Ok (), boot_world\<lparr>clock := 30\<rparr>)
 \<and> 10 - last_health_check (boot_world\<lparr>clock := 30\<rparr>) < HEALTH_CHECK_INTERVAL
 \<and> 59 - last_health_check (boot_world\<lparr>clock := 30\<rparr>) < HEALTH_CHECK_INTERVAL
 \<and> new_events (boot_world\<lparr>clock := 30\<rparr>)
      (health_calls ''M1'' [10, 59] (boot_world\<lparr>clock := 30\<rparr>)) = []
 \<and> 60 - last_health_check boot_world \<ge> HEALTH_CHECK_INTERVAL
 \<and> next_outcome (prep_script boot_world) = None \<and> next_outcome (pub_script boot_world) = None
 \<and> (61::int) - 60 < HEALTH_CHECK_INTERVAL \<and> (119::int) - 60 < HEALTH_CHECK_INTERVAL
 \<and> filter is_publish (new_events boot_world (health_calls ''M1'' [60, 61, 119] boot_world))
     = [Publish ''vending/machine/M1/health'' (health_payload 60 100000 20000) None]
 \<and> last_health_check (health_calls ''M1'' [60, 61, 119] boot_world) = 60
 \<and> next_outcome (prep_script (boot_world\<lparr>clock := 60, prep_script := [Some (OtherError ''MemoryError'')]\<rparr>))
     = Some (OtherError ''MemoryError'')
 \<and> filter is_publish
      (new_events (boot_world\<lparr>clock := 60, prep_script := [Some (OtherError ''MemoryError'')]\<rparr>)
         (snd (publish_health_status ''M1''
                 (boot_world\<lparr>clock := 60, prep_script := [Some (OtherError ''MemoryError'')]\<rparr>)))) = []
 \<and> next_outcome (pub_script (boot_world\<lparr>pub_script := [Some (OSError ''ECONNRESET'')]\<rparr>))
     = Some (OSError ''ECONNRESET'')
 \<and> (60::int) \<le> 61
 \<and> filter is_publish
      (new_events (boot_world\<lparr>pub_script := [Some (OSError ''ECONNRESET'')]\<rparr>)
         (health_calls ''M1'' [60, 61] (boot_world\<lparr>pub_script := [Some (OSError ''ECONNRESET'')]\<rparr>)))
     = [Publish ''vending/machine/M1/health'' (health_payload 60 100000 20000)
          (Some (OSError ''ECONNRESET'')),
        Publish ''vending/machine/M1/health'' (health_payload 61 100000 20000) None]
 \<and> last_health_check
      (health_calls ''M1'' [60, 61] (boot_world\<lparr>pub_script := [Some (OSError ''ECONNRESET'')]\<rparr>)) = 61"
proof -
  have bw: "last_health_check boot_world = 0" "prep_script boot_world = []"
    "pub_script boot_world = []" "mem_free boot_world = 100000" "mem_alloc boot_world = 20000"
    "clock boot_world = 0"
    by (simp_all add: boot_world_def)
  show ?thesis
    using bw
      health_status_interval [where w = "boot_world\<lparr>clock := 30\<rparr>" and mid = "''M1''"
      and nows = "[10, 59]" and now = 0 and now' = 0 and e = "OtherError []"]
      health_status_interval [where w = boot_world and mid = "''M1''"
      and nows = "[61, 119]" and now = 60 and now' = 0 and e = "OtherError []"]
      health_status_interval [where
      w = "boot_world\<lparr>clock := 60, prep_script := [Some (OtherError ''MemoryError'')]\<rparr>"
      and mid = "''M1''" and nows = "[]" and now = 0 and now' = 0
      and e = "OtherError ''MemoryError''"]
      health_status_interval [where
      w = "boot_world\<lparr>pub_script := [Some (OSError ''ECONNRESET'')]\<rparr>"
      and mid = "''M1''" and nows = "[]" and now = 60 and now' = 61
      and e = "OSError ''ECONNRESET''"]
    by (simp add: HEALTH_CHECK_INTERVAL_def MQTT_TOPIC_HEALTH_def next_outcome_def
        del: health_calls.simps)
qed

subsection \<open>The supervisor loop\<close>











subsection \<open>Commands that are rejected\<close>

lemma topics_distinct [simp]:
  "MQTT_TOPIC_CONFIRM mid \<noteq> MQTT_TOPIC_PUB mid"
  "MQTT_TOPIC_PUB mid \<noteq> MQTT_TOPIC_CONFIRM mid"
  by (simp_all add: MQTT_TOPIC_CONFIRM_def MQTT_TOPIC_PUB_def)

lemma command_failed_run:
  "command_failed mid e w =
     (Ok (),
      w\<lparr>pub_script := tl (pub_script w),
        trace := trace w @
          [Print ERROR (if is_ValueError e
                        then ''Could not parse payload or missing required field''
                        else ''General error processing message''),
           Publish (MQTT_TOPIC_PUB mid)
             (error_payload (if is_ValueError e then ''payload_error'' else ''processing_error'') e)
             (next_outcome (pub_script w))]
          @ (case next_outcome (pub_script w) of
               None \<Rightarrow> []
             | Some x \<Rightarrow>
                 [Print WARNING (if is_ValueError e
                                 then ''Could not publish payload_error status''
                                 else ''Could not publish processing_error status'')])\<rparr>)"
  by (cases "next_outcome (pub_script w)")
     (simp_all add: command_failed_def publish_run outcome_def run_defs)

lemma sub_cb_command_raises:
  assumes "utf8_ok env msg" "utf8_ok env (MQTT_TOPIC_SUB mid)"
    and "\<And>w'. handle_command env mid msg w' = (Raise e, w')"
  shows "sub_cb env mid (MQTT_TOPIC_SUB mid) msg w =
     (Ok (),
      w\<lparr>pub_script := tl (pub_script w),
        trace := trace w @
          [Print INFO ''Received raw message'',
           Print ERROR (if is_ValueError e
                        then ''Could not parse payload or missing required field''
                        else ''General error processing message''),
           Publish (MQTT_TOPIC_PUB mid)
             (error_payload (if is_ValueError e then ''payload_error'' else ''processing_error'') e)
             (next_outcome (pub_script w))]
          @ (case next_outcome (pub_script w) of
               None \<Rightarrow> []
             | Some x \<Rightarrow>
                 [Print WARNING (if is_ValueError e
                                 then ''Could not publish payload_error status''
                                 else ''Could not publish processing_error status'')])\<rparr>)"
  using assms(1,2)
  by (simp add: sub_cb_def bytes_decode_def assms(3) command_failed_run run_defs)

lemma handle_command_decode_fails:
  assumes "loads env msg = Inl d"
  shows "handle_command env mid msg w = (Raise (ValueError d), w)"
  using assms by (simp add: handle_command_def json_loads_def run_defs)

lemma handle_command_pulse:
  assumes "loads env msg = Inr (JObj kvs)" "pulse_handled kvs"
  shows "handle_command env mid msg w = pulse_command env mid (JObj kvs) w"
  using assms
  by (auto simp add: handle_command_def json_loads_def dict_get_def dict_get_default_def
      pulse_handled_def run_defs split: option.splits)

lemma py_int_pure:
  "py_int env v w = (fst (py_int env v w0), w)"
  by (simp add: py_int_def int_of_float_def run_defs
      split: json.splits option.splits pyfloat.splits)

lemma py_int_any_world:
  assumes "py_int env v w = (r, w)"
  shows "py_int env v w' = (r, w')"
proof -
  have "py_int env v w' = (fst (py_int env v w), w')"
    by (rule py_int_pure)
  then show ?thesis
    by (simp only: assms fst_conv)
qed

lemma py_int_accepts:
  assumes "int_accepts v"
  shows "(\<exists>n. py_int env v w = (Ok n, w)) \<or> (\<exists>m. py_int env v w = (Raise (ValueError m), w))"
  using assms
  by (cases v rule: int_accepts.cases)
     (auto simp add: py_int_def int_of_float_def run_defs split: option.splits)

lemma py_int_rejects:
  assumes "\<not> int_accepts v"
  shows "\<exists>e. \<not> is_ValueError e \<and> (\<forall>w. py_int env v w = (Raise e, w))"
  using assms
  by (cases v rule: int_accepts.cases)
     (auto simp add: py_int_def int_of_float_def run_defs split: option.splits)

lemma pulse_command_bad_pulses:
  assumes "py_int env (pulses_field kvs) w = (Raise e, w)"
  shows "pulse_command env mid (JObj kvs) w = (Raise e, w)"
  using assms
  by (simp add: pulse_command_def dict_get_default_def pulses_field_def run_defs)

lemma pulse_command_missing_id:
  assumes "py_int env (pulses_field kvs) w = (Ok n, w)" "map_of kvs ''qrcode_id'' = None"
  shows "pulse_command env mid (JObj kvs) w
     = (Raise (ValueError ''Missing 'qrcode_id' in payload for pulse action''), w)"
  using assms
  by (simp add: pulse_command_def dict_get_def dict_get_default_def pulses_field_def run_defs)

lemma sub_cb_decode_fails:
  assumes "utf8_ok env msg" "utf8_ok env (MQTT_TOPIC_SUB mid)" "loads env msg = Inl d"
  shows "sub_cb env mid (MQTT_TOPIC_SUB mid) msg w =
     (Ok (),
      w\<lparr>pub_script := tl (pub_script w),
        trace := trace w @
          [Print INFO ''Received raw message'',
           Print ERROR ''Could not parse payload or missing required field'',
           Publish (MQTT_TOPIC_PUB mid) (error_payload ''payload_error'' (ValueError d))
             (next_outcome (pub_script w))]
          @ (case next_outcome (pub_script w) of
               None \<Rightarrow> []
             | Some x \<Rightarrow> [Print WARNING ''Could not publish payload_error status''])\<rparr>)"
  using sub_cb_command_raises [OF assms(1,2) handle_command_decode_fails [OF assms(3)], of w]
  by simp

lemma sub_cb_missing_id:
  assumes "utf8_ok env msg" "utf8_ok env (MQTT_TOPIC_SUB mid)"
    and "loads env msg = Inr (JObj kvs)" "pulse_handled kvs"
    and "map_of kvs ''qrcode_id'' = None" "int_accepts (pulses_field kvs)"
  shows "\<exists>detail.
     sub_cb env mid (MQTT_TOPIC_SUB mid) msg w =
       (Ok (),
        w\<lparr>pub_script := tl (pub_script w),
          trace := trace w @
            [Print INFO ''Received raw message'',
             Print ERROR ''Could not parse payload or missing required field'',
             Publish (MQTT_TOPIC_PUB mid) (error_payload ''payload_error'' (ValueError detail))
               (next_outcome (pub_script w))]
            @ (case next_outcome (pub_script w) of
                 None \<Rightarrow> []
               | Some x \<Rightarrow> [Print WARNING ''Could not publish payload_error status''])\<rparr>)
   \<and> (\<forall>n. pulses_field kvs = JInt n \<longrightarrow>
          detail = ''Missing 'qrcode_id' in payload for pulse action'')"
proof -
  from py_int_accepts [OF assms(6), of env w]
  consider n where "py_int env (pulses_field kvs) w = (Ok n, w)"
    | m where "py_int env (pulses_field kvs) w = (Raise (ValueError m), w)"
    by blast
  then show ?thesis
  proof cases
    case 1
    have "\<And>w'. py_int env (pulses_field kvs) w' = (Ok n, w')"
      by (rule py_int_any_world [OF 1])
    then have "\<And>w'. handle_command env mid msg w'
        = (Raise (ValueError ''Missing 'qrcode_id' in payload for pulse action''), w')"
      using assms(3,4,5) by (simp add: handle_command_pulse pulse_command_missing_id)
    from sub_cb_command_raises [OF assms(1,2) this, of w]
    show ?thesis
      by (intro exI [of _ "''Missing 'qrcode_id' in payload for pulse action''"]) simp
  next
    case 2
    have "\<And>w'. py_int env (pulses_field kvs) w' = (Raise (ValueError m), w')"
      by (rule py_int_any_world [OF 2])
    then have raises: "\<And>w'. handle_command env mid msg w' = (Raise (ValueError m), w')"
      using assms(3,4) by (simp add: handle_command_pulse pulse_command_bad_pulses)
    have "\<forall>n. pulses_field kvs \<noteq> JInt n"
      using 2 by (auto simp add: py_int_def run_defs)
    with sub_cb_command_raises [OF assms(1,2) raises, of w]
    show ?thesis
      by (intro exI [of _ m]) simp
  qed
qed

lemma sub_cb_bad_pulses:
  assumes "utf8_ok env msg" "utf8_ok env (MQTT_TOPIC_SUB mid)"
    and "loads env msg = Inr (JObj kvs)" "pulse_handled kvs"
    and "\<not> int_accepts (pulses_field kvs)"
  shows "\<exists>e. \<not> is_ValueError e \<and>
     sub_cb env mid (MQTT_TOPIC_SUB mid) msg w =
       (Ok (),
        w\<lparr>pub_script := tl (pub_script w),
          trace := trace w @
            [Print INFO ''Received raw message'',
             Print ERROR ''General error processing message'',
             Publish (MQTT_TOPIC_PUB mid) (error_payload ''processing_error'' e)
               (next_outcome (pub_script w))]
            @ (case next_outcome (pub_script w) of
                 None \<Rightarrow> []
               | Some x \<Rightarrow> [Print WARNING ''Could not publish processing_error status''])\<rparr>)"
proof -
  from py_int_rejects [OF assms(5), of env]
  obtain e where e: "\<not> is_ValueError e" "\<And>w'. py_int env (pulses_field kvs) w' = (Raise e, w')"
    by blast
  have "\<And>w'. handle_command env mid msg w' = (Raise e, w')"
    using assms(3,4) e(2) by (simp add: handle_command_pulse pulse_command_bad_pulses)
  from sub_cb_command_raises [OF assms(1,2) this, of w] e(1)
  show ?thesis
    by (intro exI [of _ e]) simp
qed

text \<open>
  Claim C6, as the code has it. A command-in message whose bytes decode as text and that
  either is not JSON, or is an object for the pulse branch without \<open>qrcode_id\<close> whose
  \<open>pulses\<close> is absent or a value \<^verbatim>\<open>int()\<close> takes or rejects with a ValueError: the
  dispatcher returns after exactly one publish, a \<open>payload_error\<close> status with the error
  text on status-out; nothing goes to confirm-out and the pin is not touched. The text
  is the decoder's for a message that is not JSON, and that of the missing \<open>qrcode_id\<close> when
  \<open>pulses\<close> is absent or an integer. When \<^verbatim>\<open>int()\<close> raises another error on \<open>pulses\<close> (it is
  converted before \<open>qrcode_id\<close> is looked at), the one publish is a \<open>processing_error\<close>
  status instead.
\<close>

theorem rejected_command_publishes_payload_error:
  assumes "utf8_ok env msg" "utf8_ok env (MQTT_TOPIC_SUB mid)"
  shows "(loads env msg = Inl d \<longrightarrow>
           fst (sub_cb env mid (MQTT_TOPIC_SUB mid) msg w) = Ok ()
         \<and> actions (new_events w (snd (sub_cb env mid (MQTT_TOPIC_SUB mid) msg w)))
             = [Publish (MQTT_TOPIC_PUB mid) (error_payload ''payload_error'' (ValueError d))
                  (next_outcome (pub_script w))]
         \<and> published_on (MQTT_TOPIC_CONFIRM mid)
              (new_events w (snd (sub_cb env mid (MQTT_TOPIC_SUB mid) msg w))) = [])
       \<and> (loads env msg = Inr (JObj kvs) \<and> pulse_handled kvs
            \<and> map_of kvs ''qrcode_id'' = None \<and> int_accepts (pulses_field kvs) \<longrightarrow>
           fst (sub_cb env mid (MQTT_TOPIC_SUB mid) msg w) = Ok ()
         \<and> (\<exists>detail.
               actions (new_events w (snd (sub_cb env mid (MQTT_TOPIC_SUB mid) msg w)))
                 = [Publish (MQTT_TOPIC_PUB mid)
                      (JObj [(''status'', JStr ''payload_error''), (''error'', JStr detail)])
                      (next_outcome (pub_script w))]
             \<and> (\<forall>n. pulses_field kvs = JInt n \<longrightarrow>
                    detail = ''Missing 'qrcode_id' in payload for pulse action''))
         \<and> published_on (MQTT_TOPIC_CONFIRM mid)
              (new_events w (snd (sub_cb env mid (MQTT_TOPIC_SUB mid) msg w))) = [])
       \<and> (loads env msg = Inr (JObj kvs) \<and> pulse_handled kvs
            \<and> \<not> int_accepts (pulses_field kvs) \<longrightarrow>
           fst (sub_cb env mid (MQTT_TOPIC_SUB mid) msg w) = Ok ()
         \<and> (\<exists>detail.
               actions (new_events w (snd (sub_cb env mid (MQTT_TOPIC_SUB mid) msg w)))
                 = [Publish (MQTT_TOPIC_PUB mid)
                      (JObj [(''status'', JStr ''processing_error''), (''error'', JStr detail)])
                      (next_outcome (pub_script w))]))"
proof -
  have a: "loads env msg = Inl d \<longrightarrow>
           fst (sub_cb env mid (MQTT_TOPIC_SUB mid) msg w) = Ok ()
         \<and> actions (new_events w (snd (sub_cb env mid (MQTT_TOPIC_SUB mid) msg w)))
             = [Publish (MQTT_TOPIC_PUB mid) (error_payload ''payload_error'' (ValueError d))
                  (next_outcome (pub_script w))]
         \<and> published_on (MQTT_TOPIC_CONFIRM mid)
              (new_events w (snd (sub_cb env mid (MQTT_TOPIC_SUB mid) msg w))) = []"
    by (simp add: sub_cb_decode_fails [OF assms] actions_def split: option.splits)
  have b: "loads env msg = Inr (JObj kvs) \<and> pulse_handled kvs
            \<and> map_of kvs ''qrcode_id'' = None \<and> int_accepts (pulses_field kvs) \<longrightarrow>
           fst (sub_cb env mid (MQTT_TOPIC_SUB mid) msg w) = Ok ()
         \<and> (\<exists>detail.
               actions (new_events w (snd (sub_cb env mid (MQTT_TOPIC_SUB mid) msg w)))
                 = [Publish (MQTT_TOPIC_PUB mid)
                      (JObj [(''status'', JStr ''payload_error''), (''error'', JStr detail)])
                      (next_outcome (pub_script w))]
             \<and> (\<forall>n. pulses_field kvs = JInt n \<longrightarrow>
                    detail = ''Missing 'qrcode_id' in payload for pulse action''))
         \<and> published_on (MQTT_TOPIC_CONFIRM mid)
              (new_events w (snd (sub_cb env mid (MQTT_TOPIC_SUB mid) msg w))) = []"
  proof (intro impI, elim conjE)
    assume h: "loads env msg = Inr (JObj kvs)" "pulse_handled kvs"
      "map_of kvs ''qrcode_id'' = None" "int_accepts (pulses_field kvs)"
    from sub_cb_missing_id [OF assms h, of w]
    obtain detail where run: "sub_cb env mid (MQTT_TOPIC_SUB mid) msg w =
       (Ok (),
        w\<lparr>pub_script := tl (pub_script w),
          trace := trace w @
            [Print INFO ''Received raw message'',
             Print ERROR ''Could not parse payload or missing required field'',
             Publish (MQTT_TOPIC_PUB mid) (error_payload ''payload_error'' (ValueError detail))
               (next_outcome (pub_script w))]
            @ (case next_outcome (pub_script w) of
                 None \<Rightarrow> []
               | Some x \<Rightarrow> [Print WARNING ''Could not publish payload_error status''])\<rparr>)"
      and det: "\<forall>n. pulses_field kvs = JInt n \<longrightarrow>
          detail = ''Missing 'qrcode_id' in payload for pulse action''"
      by blast
    have "actions (new_events w (snd (sub_cb env mid (MQTT_TOPIC_SUB mid) msg w)))
                 = [Publish (MQTT_TOPIC_PUB mid)
                      (JObj [(''status'', JStr ''payload_error''), (''error'', JStr detail)])
                      (next_outcome (pub_script w))]"
      by (simp add: run actions_def error_payload_def split: option.splits)
    moreover have "fst (sub_cb env mid (MQTT_TOPIC_SUB mid) msg w) = Ok ()"
      by (simp add: run)
    moreover have "published_on (MQTT_TOPIC_CONFIRM mid)
              (new_events w (snd (sub_cb env mid (MQTT_TOPIC_SUB mid) msg w))) = []"
      by (simp add: run split: option.splits)
    ultimately show "fst (sub_cb env mid (MQTT_TOPIC_SUB mid) msg w) = Ok ()
         \<and> (\<exists>detail.
               actions (new_events w (snd (sub_cb env mid (MQTT_TOPIC_SUB mid) msg w)))
                 = [Publish (MQTT_TOPIC_PUB mid)
                      (JObj [(''status'', JStr ''payload_error''), (''error'', JStr detail)])
                      (next_outcome (pub_script w))]
             \<and> (\<forall>n. pulses_field kvs = JInt n \<longrightarrow>
                    detail = ''Missing 'qrcode_id' in payload for pulse action''))
         \<and> published_on (MQTT_TOPIC_CONFIRM mid)
              (new_events w (snd (sub_cb env mid (MQTT_TOPIC_SUB mid) msg w))) = []"
      using det by blast
  qed
  have c: "loads env msg = Inr (JObj kvs) \<and> pulse_handled kvs
            \<and> \<not> int_accepts (pulses_field kvs) \<longrightarrow>
           fst (sub_cb env mid (MQTT_TOPIC_SUB mid) msg w) = Ok ()
         \<and> (\<exists>detail.
               actions (new_events w (snd (sub_cb env mid (MQTT_TOPIC_SUB mid) msg w)))
                 = [Publish (MQTT_TOPIC_PUB mid)
                      (JObj [(''status'', JStr ''processing_error''), (''error'', JStr detail)])
                      (next_outcome (pub_script w))])"
  proof (intro impI, elim conjE)
    assume h: "loads env msg = Inr (JObj kvs)" "pulse_handled kvs"
      "\<not> int_accepts (pulses_field kvs)"
    from sub_cb_bad_pulses [OF assms h, of w]
    obtain e where run: "sub_cb env mid (MQTT_TOPIC_SUB mid) msg w =
       (Ok (),
        w\<lparr>pub_script := tl (pub_script w),
          trace := trace w @
            [Print INFO ''Received raw message'',
             Print ERROR ''General error processing message'',
             Publish (MQTT_TOPIC_PUB mid) (error_payload ''processing_error'' e)
               (next_outcome (pub_script w))]
            @ (case next_outcome (pub_script w) of
                 None \<Rightarrow> []
               | Some x \<Rightarrow> [Print WARNING ''Could not publish processing_error status''])\<rparr>)"
      by blast
    have "actions (new_events w (snd (sub_cb env mid (MQTT_TOPIC_SUB mid) msg w)))
                 = [Publish (MQTT_TOPIC_PUB mid)
                      (JObj [(''status'', JStr ''processing_error''), (''error'', JStr (exn_str e))])
                      (next_outcome (pub_script w))]"
      by (simp add: run actions_def error_payload_def split: option.splits)
    moreover have "fst (sub_cb env mid (MQTT_TOPIC_SUB mid) msg w) = Ok ()"
      by (simp add: run)
    ultimately show "fst (sub_cb env mid (MQTT_TOPIC_SUB mid) msg w) = Ok ()
         \<and> (\<exists>detail.
               actions (new_events w (snd (sub_cb env mid (MQTT_TOPIC_SUB mid) msg w)))
                 = [Publish (MQTT_TOPIC_PUB mid)
                      (JObj [(''status'', JStr ''processing_error''), (''error'', JStr detail)])
                      (next_outcome (pub_script w))])"
      by blast
  qed
  from a b c show ?thesis by blast
qed

lemma sample_topic_ok: "utf8_ok sample_env (MQTT_TOPIC_SUB ''M1'')"
  by (simp add: sample_utf8_ascii MQTT_TOPIC_SUB_def)

lemma sample_loads_garbage:
  "loads sample_env ''{oops'' = Inl ''syntax error in JSON''"
  by (simp add: sample_loads sample_payloads_def)

lemma sample_loads_no_id:
  \<open>loads sample_env ''{"pulses":2}'' = Inr (JObj [(''pulses'', JInt 2)])\<close>
  by (simp add: sample_loads sample_payloads_def)

lemma sample_loads_null_pulses:
  \<open>loads sample_env ''{"pulses":null}'' = Inr (JObj [(''pulses'', JNull)])\<close>
  by (simp add: sample_loads sample_payloads_def)

lemma boot_scripts:
  "pub_script boot_world = []" "pin_script boot_world = []" "trace boot_world = []"
  by (simp_all add: boot_world_def)

theorem rejected_command_publishes_payload_error_witness:
  \<open>utf8_ok sample_env ''{oops'' \<and> utf8_ok sample_env (MQTT_TOPIC_SUB ''M1'')
   \<and> loads sample_env ''{oops'' = Inl ''syntax error in JSON''
   \<and> actions (new_events boot_world
        (snd (sub_cb sample_env ''M1'' (MQTT_TOPIC_SUB ''M1'') ''{oops'' boot_world)))
       = [Publish (MQTT_TOPIC_PUB ''M1'')
            (JObj [(''status'', JStr ''payload_error''), (''error'', JStr ''syntax error in JSON'')])
            None]
   \<and> utf8_ok sample_env ''{"pulses":2}''
   \<and> loads sample_env ''{"pulses":2}'' = Inr (JObj [(''pulses'', JInt 2)])
   \<and> pulse_handled [(''pulses'', JInt 2)]
   \<and> map_of [(''pulses'', JInt 2)] ''qrcode_id'' = None
   \<and> int_accepts (pulses_field [(''pulses'', JInt 2)])
   \<and> actions (new_events boot_world
        (snd (sub_cb sample_env ''M1'' (MQTT_TOPIC_SUB ''M1'') ''{"pulses":2}'' boot_world)))
       = [Publish (MQTT_TOPIC_PUB ''M1'')
            (JObj [(''status'', JStr ''payload_error''),
                   (''error'', JStr ''Missing 'qrcode_id' in payload for pulse action'')])
            None]
   \<and> published_on (MQTT_TOPIC_CONFIRM ''M1'') (new_events boot_world
        (snd (sub_cb sample_env ''M1'' (MQTT_TOPIC_SUB ''M1'') ''{"pulses":2}'' boot_world))) = []\<close>
proof -
  have u1: "utf8_ok sample_env ''{oops''"
    by (simp add: sample_utf8_ascii)
  have u2: \<open>utf8_ok sample_env ''{"pulses":2}''\<close>
    by (simp add: sample_utf8_ascii)
  have k: "pulse_handled [(''pulses'', JInt 2)]"
    "map_of [(''pulses'', JInt 2)] ''qrcode_id'' = None"
    "int_accepts (pulses_field [(''pulses'', JInt 2)])"
    "pulses_field [(''pulses'', JInt 2)] = JInt 2"
    by (simp_all add: pulse_handled_def pulses_field_def)
  show ?thesis
    using u1 u2 sample_topic_ok sample_loads_garbage sample_loads_no_id k(1,2,3)
      rejected_command_publishes_payload_error [OF u1 sample_topic_ok,
        of "''syntax error in JSON''" boot_world "[]"]
      rejected_command_publishes_payload_error [OF u2 sample_topic_ok,
        of "[]" boot_world "[(''pulses'', JInt 2)]"]
    by (simp add: k(4) boot_scripts error_payload_def)
qed

text \<open>
  Claim C6 as stated has every pulse command without \<open>qrcode_id\<close> answered by
  \<open>payload_error\<close>. The conversion of \<open>pulses\<close> comes first: on \<^verbatim>\<open>{"pulses":null}\<close> it raises
  a TypeError, which the second \<^verbatim>\<open>except\<close> clause reports as \<open>processing_error\<close>.
\<close>

theorem null_pulses_reported_as_processing_error:
  \<open>actions (trace (snd (sub_cb sample_env ''M1'' (MQTT_TOPIC_SUB ''M1'') ''{"pulses":null}''
       boot_world)))
     = [Publish ''vending/machine/M1/status''
          (JObj [(''status'', JStr ''processing_error''),
                 (''error'', JStr ''can't convert NoneType to int'')])
          None]\<close>
proof -
  have u: \<open>utf8_ok sample_env ''{"pulses":null}''\<close>
    by (simp add: sample_utf8_ascii)
  have k: "pulse_handled [(''pulses'', JNull)]"
    by (simp add: pulse_handled_def)
  have "\<And>w'. py_int sample_env (pulses_field [(''pulses'', JNull)]) w'
      = (Raise (TypeError ''can't convert NoneType to int''), w')"
    by (simp add: pulses_field_def py_int_def run_defs)
  then have \<open>\<And>w'. handle_command sample_env ''M1'' ''{"pulses":null}'' w'
      = (Raise (TypeError ''can't convert NoneType to int''), w')\<close>
    by (simp add: handle_command_pulse [OF sample_loads_null_pulses k] pulse_command_bad_pulses)
  from sub_cb_command_raises [OF u sample_topic_ok this, of boot_world]
  show ?thesis
    by (simp add: boot_scripts actions_def error_payload_def MQTT_TOPIC_PUB_def)
qed

end
